theory Spec2Isabelle
  imports Main "HOL-Library.Sublist" "HOL-Library.AList"
begin

section \<open>Python values\<close>

text \<open>
  A Python \<open>str\<close> is a sequence of Unicode code points, and \<open>len\<close> and slicing count
  code points. Strings are therefore lists of code points (natural numbers), not byte
  strings. \<open>str\<close> turns an ASCII literal into its code points; characters beyond ASCII
  are written by their code point (U+2014 is the em dash, U+2022 the bullet, U+2026 the
  ellipsis, U+1F44D and U+1F44E the two thumbs).
\<close>

type_synonym ustr = "nat list"

definition str :: "string \<Rightarrow> ustr" where
  "str s = map of_char s"

text \<open>
  The values a block structure is made of (\<open>Dict[str, Any]\<close>): what a JSON payload
  decodes to, with the integers standing for the numbers. A dict is an association list
  in insertion order, keyed by strings.

  Dicts and lists are objects, and the code edits dicts in place. A dict or list that is
  held in one place only is written out where it is held (\<open>PDict\<close>, \<open>PList\<close>). One
  that may be held in several places is an object of the store and is written \<open>PRef a\<close>,
  with its address \<open>a\<close>, wherever it is held; the store gives what the object holds.
  Strings, numbers, booleans and \<open>None\<close> cannot be edited and are always written out.
\<close>

datatype pyval =
    PNone
  | PBool bool
  | PInt int
  | PStr ustr
  | PList "pyval list"
  | PDict "(ustr \<times> pyval) list"
  | PRef nat

type_synonym store = "nat \<Rightarrow> pyval"

text \<open>The object a value stands for.\<close>

fun resolve :: "store \<Rightarrow> pyval \<Rightarrow> pyval" where
  "resolve h (PRef a) = h a"
| "resolve h v = v"

datatype error = AttributeError | IndexError | KeyError | TypeError | ValueError

text \<open>Truthiness of an \<open>Optional[str]\<close>: \<open>None\<close> and \<open>""\<close> are falsy.\<close>

fun truthy :: "ustr option \<Rightarrow> bool" where
  "truthy None = False"
| "truthy (Some s) = (s \<noteq> [])"

text \<open>An \<open>Optional[str]\<close> inside an f-string: \<open>None\<close> is rendered as the text \<open>None\<close>.\<close>

fun fmt :: "ustr option \<Rightarrow> ustr" where
  "fmt None = str ''None''"
| "fmt (Some s) = s"

text \<open>\<open>sep.join(xs)\<close>\<close>

fun join :: "ustr \<Rightarrow> ustr list \<Rightarrow> ustr" where
  "join sep [] = []"
| "join sep [x] = x"
| "join sep (x # y # ys) = x @ sep @ join sep (y # ys)"

section \<open>Helpers\<close>

definition mk_section :: "ustr \<Rightarrow> pyval" where
  "mk_section text =
     PDict [(str ''type'', PStr (str ''section'')),
            (str ''text'', PDict [(str ''type'', PStr (str ''mrkdwn'')),
                                  (str ''text'', PStr text)])]"

text \<open>
  \<open>_mk_button(text, action_id, style=None, value="value")\<close>; the callers of this
  module never pass \<open>value\<close>, so the default is written at each call.
\<close>

definition mk_button :: "ustr \<Rightarrow> ustr \<Rightarrow> ustr option \<Rightarrow> ustr \<Rightarrow> pyval" where
  "mk_button text action_id style val =
     (let btn = [(str ''type'', PStr (str ''button'')),
                 (str ''text'', PDict [(str ''type'', PStr (str ''plain_text'')),
                                       (str ''text'', PStr text),
                                       (str ''emoji'', PBool True)]),
                 (str ''value'', PStr val),
                 (str ''action_id'', PStr action_id)]
      in PDict (if truthy style then AList.update (str ''style'') (PStr (fmt style)) btn
                else btn))"

definition divider :: pyval where
  "divider = PDict [(str ''type'', PStr (str ''divider''))]"

section \<open>The library functions the builder calls\<close>

subsection \<open>\<open>HTTP_LINK_RE = re.compile(r"https?://[^\s)>\]]+", flags=re.IGNORECASE)\<close>\<close>

text \<open>
  The pattern is a \<open>str\<close> pattern, so \<open>\s\<close> is Unicode white space and \<open>IGNORECASE\<close>
  is Unicode case-insensitive matching: next to \<open>s\<close> and \<open>S\<close>, the letter \<open>s\<close> of the
  pattern also matches U+017F (the long s); \<open>h\<close>, \<open>t\<close> and \<open>p\<close> match their two
  ASCII cases only.
\<close>

definition is_space :: "nat \<Rightarrow> bool" where
  "is_space c \<longleftrightarrow>
     (0x09 \<le> c \<and> c \<le> 0x0D) \<or> (0x1C \<le> c \<and> c \<le> 0x20) \<or> c = 0x85 \<or> c = 0xA0
     \<or> c = 0x1680 \<or> (0x2000 \<le> c \<and> c \<le> 0x200A) \<or> c = 0x2028 \<or> c = 0x2029
     \<or> c = 0x202F \<or> c = 0x205F \<or> c = 0x3000"

text \<open>The class \<open>[^\s)>\]]\<close>.\<close>

definition url_char :: "nat \<Rightarrow> bool" where
  "url_char c \<longleftrightarrow> \<not> is_space c \<and> c \<noteq> 0x29 \<and> c \<noteq> 0x3E \<and> c \<noteq> 0x5D"

definition is_h :: "nat \<Rightarrow> bool" where "is_h c \<longleftrightarrow> c = 0x68 \<or> c = 0x48"
definition is_t :: "nat \<Rightarrow> bool" where "is_t c \<longleftrightarrow> c = 0x74 \<or> c = 0x54"
definition is_p :: "nat \<Rightarrow> bool" where "is_p c \<longleftrightarrow> c = 0x70 \<or> c = 0x50"
definition is_s :: "nat \<Rightarrow> bool" where "is_s c \<longleftrightarrow> c = 0x73 \<or> c = 0x53 \<or> c = 0x17F"

text \<open>
  \<open>://[^\s)>\]]+\<close> at the start of a string: the matched text and what follows it.
  The class is greedy and nothing follows it in the pattern, so it takes the whole run.
\<close>

definition match_tail :: "ustr \<Rightarrow> (ustr \<times> ustr) option" where
  "match_tail cs =
     (case cs of
        c1 # c2 # c3 # r \<Rightarrow>
          if c1 = 0x3A \<and> c2 = 0x2F \<and> c3 = 0x2F \<and> takeWhile url_char r \<noteq> []
          then Some ([c1, c2, c3] @ takeWhile url_char r, dropWhile url_char r)
          else None
      | _ \<Rightarrow> None)"

text \<open>
  The whole pattern at the start of a string. \<open>s?\<close> is greedy: the engine first tries
  with the \<open>s\<close> and falls back to the match without it.
\<close>

definition http_link_match :: "ustr \<Rightarrow> (ustr \<times> ustr) option" where
  "http_link_match cs =
     (case cs of
        h # t1 # t2 # p # r \<Rightarrow>
          if is_h h \<and> is_t t1 \<and> is_t t2 \<and> is_p p then
            (case (case r of
                     s # r' \<Rightarrow> if is_s s
                               then map_option (\<lambda>(m, rest). (s # m, rest)) (match_tail r')
                               else None
                   | [] \<Rightarrow> None) of
               Some (m, rest) \<Rightarrow> Some ([h, t1, t2, p] @ m, rest)
             | None \<Rightarrow> map_option (\<lambda>(m, rest). ([h, t1, t2, p] @ m, rest)) (match_tail r))
          else None
      | _ \<Rightarrow> None)"

text \<open>
  \<open>HTTP_LINK_RE.findall(text)\<close>: scan from the left; after a match the scan goes on
  behind it, otherwise one character further.
\<close>

function findall :: "ustr \<Rightarrow> ustr list" where
  "findall [] = []"
| "findall (c # cs) =
     (case http_link_match (c # cs) of
        Some (m, rest) \<Rightarrow> m # findall rest
      | None \<Rightarrow> findall cs)"
  by pat_completeness auto
termination
proof (relation "measure length")
  show "wf (measure length)" by simp
next
  fix c :: nat and cs x2 m rest
  assume "http_link_match (c # cs) = Some x2" and "(m, rest) = x2"
  then have "http_link_match (c # cs) = Some (m, rest)" by simp
  then have "length rest < length (c # cs)"
    using length_dropWhile_le [of url_char]
    by (fastforce simp: http_link_match_def match_tail_def less_Suc_eq_le le_Suc_eq
        split: list.splits if_splits option.splits)
  then show "(rest, c # cs) \<in> measure length" by simp
next
  fix c :: nat and cs
  show "(cs, c # cs) \<in> measure length" by simp
qed

subsection \<open>\<open>html.unescape\<close>\<close>

text \<open>
  \<open>html.unescape\<close> reads two things of the interpreter it runs in: the table of
  named character references \<open>html.entities.html5\<close>, and the limit on the number of
  digits \<open>int\<close> converts from a decimal string (\<open>sys.get_int_max_str_digits()\<close>,
  4300 unless changed, 0 for no limit), above which \<open>int\<close> raises \<open>ValueError\<close>.
  Both are parameters of the model.
\<close>

record py_env =
  html5 :: "ustr \<rightharpoonup> ustr"
  int_max_str_digits :: nat

definition is_dec :: "nat \<Rightarrow> bool" where
  "is_dec c \<longleftrightarrow> 0x30 \<le> c \<and> c \<le> 0x39"

definition is_hex :: "nat \<Rightarrow> bool" where
  "is_hex c \<longleftrightarrow> is_dec c \<or> (0x41 \<le> c \<and> c \<le> 0x46) \<or> (0x61 \<le> c \<and> c \<le> 0x66)"

text \<open>The class \<open>[^\t\n\f <&#;]\<close>.\<close>

definition name_char :: "nat \<Rightarrow> bool" where
  "name_char c \<longleftrightarrow> c \<noteq> 0x09 \<and> c \<noteq> 0x0A \<and> c \<noteq> 0x0C \<and> c \<noteq> 0x20 \<and> c \<noteq> 0x3C
                  \<and> c \<noteq> 0x26 \<and> c \<noteq> 0x23 \<and> c \<noteq> 0x3B"

text \<open>\<open>;?\<close>: the text it matches and what follows.\<close>

fun opt_semi :: "ustr \<Rightarrow> ustr \<times> ustr" where
  "opt_semi [] = ([], [])"
| "opt_semi (c # r) = (if c = 0x3B then ([c], r) else ([], c # r))"

text \<open>
  \<open>_charref = re.compile(r'&(#[0-9]+;?|#[xX][0-9a-fA-F]+;?|[^\t\n\f <&#;]{1,32};?)')\<close>,
  one function for each alternative, applied behind the \<open>&\<close>. Each gives group 1
  and the text that follows the match.
\<close>

definition alt_dec :: "ustr \<Rightarrow> (ustr \<times> ustr) option" where
  "alt_dec cs =
     (case cs of
        h # ds \<Rightarrow>
          if h = 0x23 \<and> takeWhile is_dec ds \<noteq> []
          then (case opt_semi (dropWhile is_dec ds) of
                  (semi, rest) \<Rightarrow> Some (h # takeWhile is_dec ds @ semi, rest))
          else None
      | [] \<Rightarrow> None)"

definition alt_hex :: "ustr \<Rightarrow> (ustr \<times> ustr) option" where
  "alt_hex cs =
     (case cs of
        h # x # hs \<Rightarrow>
          if h = 0x23 \<and> (x = 0x78 \<or> x = 0x58) \<and> takeWhile is_hex hs \<noteq> []
          then (case opt_semi (dropWhile is_hex hs) of
                  (semi, rest) \<Rightarrow> Some (h # x # takeWhile is_hex hs @ semi, rest))
          else None
      | _ \<Rightarrow> None)"

definition alt_name :: "ustr \<Rightarrow> (ustr \<times> ustr) option" where
  "alt_name cs =
     (let nm = takeWhile name_char (take 32 cs)
      in if nm = [] then None
         else (case opt_semi (drop (length nm) cs) of
                 (semi, rest) \<Rightarrow> Some (nm @ semi, rest)))"

definition charref_match :: "ustr \<Rightarrow> (ustr \<times> ustr) option" where
  "charref_match s =
     (case s of
        [] \<Rightarrow> None
      | a # cs \<Rightarrow>
          if a \<noteq> 0x26 then None
          else (case alt_dec cs of
                  Some r \<Rightarrow> Some r
                | None \<Rightarrow> (case alt_hex cs of
                             Some r \<Rightarrow> Some r
                           | None \<Rightarrow> alt_name cs)))"

definition invalid_charrefs :: "(nat \<times> ustr) list" where
  "invalid_charrefs =
     [(0x00, [0xFFFD]), (0x0D, [0x0D]), (0x80, [0x20AC]), (0x81, [0x81]),
      (0x82, [0x201A]), (0x83, [0x0192]), (0x84, [0x201E]), (0x85, [0x2026]),
      (0x86, [0x2020]), (0x87, [0x2021]), (0x88, [0x02C6]), (0x89, [0x2030]),
      (0x8A, [0x0160]), (0x8B, [0x2039]), (0x8C, [0x0152]), (0x8D, [0x8D]),
      (0x8E, [0x017D]), (0x8F, [0x8F]), (0x90, [0x90]), (0x91, [0x2018]),
      (0x92, [0x2019]), (0x93, [0x201C]), (0x94, [0x201D]), (0x95, [0x2022]),
      (0x96, [0x2013]), (0x97, [0x2014]), (0x98, [0x02DC]), (0x99, [0x2122]),
      (0x9A, [0x0161]), (0x9B, [0x203A]), (0x9C, [0x0153]), (0x9D, [0x9D]),
      (0x9E, [0x017E]), (0x9F, [0x0178])]"

text \<open>
  \<open>_invalid_codepoints\<close>: 0x1 to 0x8, 0xE to 0x1F, 0x7F to 0x9F, 0xFDD0 to 0xFDEF,
  0xB, and the last two code points of each of the seventeen planes.
\<close>

definition invalid_codepoint :: "nat \<Rightarrow> bool" where
  "invalid_codepoint n \<longleftrightarrow>
     (0x1 \<le> n \<and> n \<le> 0x8) \<or> (0xE \<le> n \<and> n \<le> 0x1F) \<or> (0x7F \<le> n \<and> n \<le> 0x9F)
     \<or> (0xFDD0 \<le> n \<and> n \<le> 0xFDEF) \<or> n = 0xB
     \<or> (n \<le> 0x10FFFF \<and> (n mod 0x10000 = 0xFFFE \<or> n mod 0x10000 = 0xFFFF))"

text \<open>\<open>s.rstrip(';')\<close>\<close>

definition rstrip_semi :: "ustr \<Rightarrow> ustr" where
  "rstrip_semi s = rev (dropWhile (\<lambda>c. c = 0x3B) (rev s))"

definition digit_val :: "nat \<Rightarrow> nat" where
  "digit_val c = (if is_dec c then c - 0x30
                  else if 0x41 \<le> c \<and> c \<le> 0x46 then c - 0x41 + 10
                  else c - 0x61 + 10)"

text \<open>
  \<open>int(ds)\<close> and \<open>int(ds, 16)\<close> on the strings the pattern hands over: digits of the
  base only. Any other string is answered with \<open>ValueError\<close>. The digit limit applies
  to base 10 and not to base 16.
\<close>

definition int_dec :: "py_env \<Rightarrow> ustr \<Rightarrow> error + nat" where
  "int_dec env ds =
     (if ds = [] \<or> \<not> list_all is_dec ds then Inl ValueError
      else if 0 < int_max_str_digits env \<and> int_max_str_digits env < length ds
           then Inl ValueError
      else Inr (foldl (\<lambda>n c. n * 10 + digit_val c) 0 ds))"

definition int_hex :: "ustr \<Rightarrow> error + nat" where
  "int_hex ds =
     (if ds = [] \<or> \<not> list_all is_hex ds then Inl ValueError
      else Inr (foldl (\<lambda>n c. n * 16 + digit_val c) 0 ds))"

text \<open>
  The loop \<open>for x in range(len(s)-1, 1, -1)\<close> of the named branch: the longest proper
  prefix of at least two characters that is a name of the table.
\<close>

fun longest_prefix :: "(ustr \<rightharpoonup> ustr) \<Rightarrow> ustr \<Rightarrow> nat \<Rightarrow> ustr option" where
  "longest_prefix tbl s 0 = None"
| "longest_prefix tbl s (Suc x) =
     (if Suc x \<le> 1 then None
      else (case tbl (take (Suc x) s) of
              Some r \<Rightarrow> Some (r @ drop (Suc x) s)
            | None \<Rightarrow> longest_prefix tbl s x))"

definition replace_charref :: "py_env \<Rightarrow> ustr \<Rightarrow> error + ustr" where
  "replace_charref env s =
     (case s of
        [] \<Rightarrow> Inl IndexError
      | c0 # s1 \<Rightarrow>
          if c0 = 0x23 then
            (case s1 of
               [] \<Rightarrow> Inl IndexError
             | c1 # s2 \<Rightarrow>
                 (case (if c1 = 0x78 \<or> c1 = 0x58 then int_hex (rstrip_semi s2)
                        else int_dec env (rstrip_semi s1)) of
                    Inl e \<Rightarrow> Inl e
                  | Inr num \<Rightarrow>
                      Inr (case map_of invalid_charrefs num of
                             Some r \<Rightarrow> r
                           | None \<Rightarrow>
                               if (0xD800 \<le> num \<and> num \<le> 0xDFFF) \<or> num > 0x10FFFF
                               then [0xFFFD]
                               else if invalid_codepoint num then []
                               else [num])))
          else
            Inr (case html5 env s of
                   Some r \<Rightarrow> r
                 | None \<Rightarrow> (case longest_prefix (html5 env) s (length s - 1) of
                              Some r \<Rightarrow> r
                            | None \<Rightarrow> 0x26 # s)))"

text \<open>
  \<open>_charref.sub(_replace_charref, s)\<close>: the matches are replaced from the left, the
  text between them is kept, and the first replacement that raises ends the call.
\<close>

function charref_sub :: "py_env \<Rightarrow> ustr \<Rightarrow> error + ustr" where
  "charref_sub env [] = Inr []"
| "charref_sub env (c # cs) =
     (case charref_match (c # cs) of
        Some (g, rest) \<Rightarrow>
          (case replace_charref env g of
             Inl e \<Rightarrow> Inl e
           | Inr r \<Rightarrow> (case charref_sub env rest of
                        Inl e \<Rightarrow> Inl e
                      | Inr t \<Rightarrow> Inr (r @ t)))
      | None \<Rightarrow> (case charref_sub env cs of
                  Inl e \<Rightarrow> Inl e
                | Inr t \<Rightarrow> Inr (c # t)))"
  by pat_completeness auto
termination
proof (relation "measure (\<lambda>(env, s). length s)")
  show "wf (measure (\<lambda>(env :: py_env, s :: ustr). length s))" by simp
next
  fix env :: py_env and c :: nat and cs x2 g rest x2a
  assume "charref_match (c # cs) = Some x2" and "(g, rest) = x2"
  then have m: "charref_match (c # cs) = Some (g, rest)" by simp
  have semi: "length (snd (opt_semi xs)) \<le> length xs" for xs
    by (cases xs) auto
  have "length rest \<le> length cs"
    using m semi [of "dropWhile is_dec (tl cs)"] semi [of "dropWhile is_hex (tl (tl cs))"]
      semi [of "drop (length (takeWhile name_char (take 32 cs))) cs"]
      length_dropWhile_le [of is_dec "tl cs"] length_dropWhile_le [of is_hex "tl (tl cs)"]
    by (auto simp: charref_match_def alt_dec_def alt_hex_def alt_name_def Let_def
        split: list.splits if_splits option.splits prod.splits)
  then show "((env, rest), (env, c # cs)) \<in> measure (\<lambda>(env, s). length s)" by simp
next
  fix env :: py_env and c :: nat and cs
  show "((env, cs), (env, c # cs)) \<in> measure (\<lambda>(env, s). length s)" by simp
qed

definition unescape :: "py_env \<Rightarrow> ustr \<Rightarrow> error + ustr" where
  "unescape env s = (if 0x26 \<notin> set s then Inr s else charref_sub env s)"

section \<open>The builder state\<close>

record BlockKit =
  thread :: "ustr option"
  question :: "ustr option"
  user_id :: "ustr option"
  block_body :: "pyval list option"
  channel_id :: "ustr option"
  additional_details :: "ustr option"
  bot_id :: "ustr option"
  llm_answer :: "ustr option"
  llm_link :: "ustr option"
  channel_name :: "ustr option"

subsection \<open>Routing\<close>

definition mapping :: "(ustr \<times> ustr) list" where
  "mapping =
     [(str ''help-gcp-apple'', str ''GCP''),
      (str ''help-aws-apple'', str ''AWS''),
      (str ''help-oci-apple'', str ''OCI''),
      (str ''help-icloud-apple'', str ''iCloud''),
      (str ''help-alicloud'', str ''Alicloud''),
      (str ''help-linux-found'', str ''Linux Foundation''),
      (str ''help-rubix'', str ''Rubix''),
      (str ''help-spinclou'', str ''Spincloud''),
      (str ''Rubix'', str ''Rubix''),
      (str ''GCP'', str ''GCP''),
      (str ''AWS'', str ''AWS''),
      (str ''OCI'', str ''OCI''),
      (str ''Alicloud'', str ''Alicloud'')]"

text \<open>
  \<open>mapping.get(raw, raw or "General")\<close>. The argument is declared \<open>str\<close>; \<open>None\<close>
  (an absent route) is accepted by the code as well and is no key of the table.
\<close>

definition set_channel_name :: "BlockKit \<Rightarrow> ustr option \<Rightarrow> BlockKit" where
  "set_channel_name self raw =
     self\<lparr>channel_name :=
       (case (case raw of None \<Rightarrow> None | Some k \<Rightarrow> map_of mapping k) of
          Some label \<Rightarrow> Some label
        | None \<Rightarrow> (if truthy raw then raw else Some (str ''General'')))\<rparr>"

subsection \<open>Extraction and utilities\<close>

text \<open>\<open>extract_links(text)\<close>; \<open>not text\<close> holds of \<open>None\<close> and of the empty string.\<close>

definition extract_links :: "ustr option \<Rightarrow> ustr list" where
  "extract_links text = (case text of None \<Rightarrow> [] | Some s \<Rightarrow> if s = [] then [] else findall s)"

definition link_hint_blocks :: "ustr list \<Rightarrow> pyval list" where
  "link_hint_blocks links =
     (if links = [] then []
      else (let items = take 3 links;
                bullets = join [0x0A] (map (\<lambda>u. [0x2022, 0x20] @ u) items)
            in [mk_section (str ''*The following link(s) might help you:*'' @ [0x0A] @ bullets)]))"

subsection \<open>Feedback UI\<close>

definition feedback_prompt :: ustr where
  "feedback_prompt = str ''Did you find our suggestion satisfactory?''"

definition feedback_block_kit :: "pyval list" where
  "feedback_block_kit =
     [divider,
      mk_section feedback_prompt,
      PDict [(str ''type'', PStr (str ''actions'')),
             (str ''elements'', PList
                [mk_button [0x1F44D] (str ''vertex_positive'') (Some (str ''primary'')) (str ''value''),
                 mk_button [0x1F44E] (str ''vertex_negative'') (Some (str ''danger'')) (str ''value'')])]]"

definition thread_feedback_block_kit :: "pyval list" where
  "thread_feedback_block_kit =
     [divider,
      mk_section feedback_prompt,
      PDict [(str ''type'', PStr (str ''actions'')),
             (str ''elements'', PList
                [mk_button [0x1F44D] (str ''thread_positive'') (Some (str ''primary'')) (str ''value''),
                 mk_button [0x1F44E] (str ''thread_negative'') (Some (str ''danger'')) (str ''value'')])]]"

subsection \<open>Primary answer builder\<close>

definition no_suggestion :: "ustr option \<Rightarrow> ustr" where
  "no_suggestion uid =
     str ''Sorry, <@'' @ fmt uid @ str ''> '' @ [0x2014] @ str '' no suggestions have been found.''"

definition preamble :: ustr where
  "preamble = str ''Thank you for submitting a request with Cloud Tech. ''
            @ str ''Based on your query, the following answer has been found:''"

definition build_answer_blocks :: "py_env \<Rightarrow> BlockKit \<Rightarrow> error + pyval" where
  "build_answer_blocks env self =
     (if \<not> truthy (llm_answer self)
      then Inr (PDict [(str ''blocks'', PList [mk_section (no_suggestion (user_id self))])])
      else (case unescape env (case llm_answer self of Some s \<Rightarrow> s | None \<Rightarrow> []) of
              Inl e \<Rightarrow> Inl e
            | Inr t \<Rightarrow>
                (let answer = take 3000 t;
                     blocks = [mk_section preamble, mk_section answer];
                     links = extract_links (Some answer);
                     blocks = blocks @ link_hint_blocks links;
                     blocks = blocks @ feedback_block_kit
                 in Inr (PDict [(str ''blocks'', PList blocks)]))))"

subsection \<open>Update helpers\<close>

text \<open>
  The operations of Python the update applies to an object of any type:
  \<open>x.get(k)\<close>, \<open>k in x\<close> for a dict \<open>x\<close>, \<open>x[k]\<close> with a string \<open>k\<close>,
  \<open>unescape(x)\<close>, \<open>x[:3000]\<close>, and \<open>x[k] = v\<close>. They are applied to what a
  value stands for (\<open>resolve\<close>), so a reference never reaches them.
\<close>

fun py_get :: "pyval \<Rightarrow> ustr \<Rightarrow> error + pyval" where
  "py_get (PDict d) k = Inr (case map_of d k of Some v \<Rightarrow> v | None \<Rightarrow> PNone)"
| "py_get _ k = Inl AttributeError"

fun py_has_key :: "pyval \<Rightarrow> ustr \<Rightarrow> bool" where
  "py_has_key (PDict d) k = (map_of d k \<noteq> None)"
| "py_has_key _ k = False"

fun py_subscript :: "pyval \<Rightarrow> ustr \<Rightarrow> error + pyval" where
  "py_subscript (PDict d) k = (case map_of d k of Some v \<Rightarrow> Inr v | None \<Rightarrow> Inl KeyError)"
| "py_subscript _ k = Inl TypeError"

text \<open>
  \<open>unescape\<close> starts with \<open>'&' not in s\<close> and returns \<open>s\<close> itself when that holds,
  whatever \<open>s\<close> is: a list without the element \<open>'&'\<close> and a dict without the key
  \<open>'&'\<close> pass through; the substitution then refuses everything that is no string.
\<close>

fun py_unescape :: "py_env \<Rightarrow> pyval \<Rightarrow> error + pyval" where
  "py_unescape env (PStr s) = (case unescape env s of Inl e \<Rightarrow> Inl e | Inr t \<Rightarrow> Inr (PStr t))"
| "py_unescape env (PList l) = (if PStr [0x26] \<in> set l then Inl TypeError else Inr (PList l))"
| "py_unescape env (PDict d) = (if map_of d [0x26] \<noteq> None then Inl TypeError else Inr (PDict d))"
| "py_unescape env _ = Inl TypeError"

text \<open>A dict is no sequence: slicing it raises (\<open>TypeError\<close>; \<open>KeyError\<close> from Python 3.12 on).\<close>

fun py_slice_3000 :: "pyval \<Rightarrow> error + pyval" where
  "py_slice_3000 (PStr s) = Inr (PStr (take 3000 s))"
| "py_slice_3000 (PList l) = Inr (PList (take 3000 l))"
| "py_slice_3000 _ = Inl TypeError"

fun py_setitem :: "pyval \<Rightarrow> ustr \<Rightarrow> pyval \<Rightarrow> error + pyval" where
  "py_setitem (PDict d) k v = Inr (PDict (AList.update k v d))"
| "py_setitem _ k v = Inl TypeError"

text \<open>
  The store \<open>item["text"]["text"] = new\<close>, when the edited mapping \<open>inner'\<close> has been
  computed: the mapping under \<open>text\<close> is edited where it lives. When it is an object
  of the store, the store changes at its address. When it is held by the item only, the
  item changes: in the store when the item is an object there, else in the list.
\<close>

definition put_text :: "store \<Rightarrow> pyval \<Rightarrow> pyval \<Rightarrow> pyval \<Rightarrow> error + pyval \<times> store" where
  "put_text h item t inner' =
     (case t of
        PRef b \<Rightarrow> Inr (item, h(b := inner'))
      | _ \<Rightarrow>
          (case py_setitem (resolve h item) (str ''text'') inner' of
             Inl e \<Rightarrow> Inl e
           | Inr obj' \<Rightarrow>
               (case item of
                  PRef a \<Rightarrow> Inr (item, h(a := obj'))
                | _ \<Rightarrow> Inr (obj', h))))"

text \<open>
  The body of the loop, for one item: the item and the store as the loop leaves them, or
  the error. The right-hand side of the assignment is evaluated before anything is
  stored, so an item that raises is left as it was.
\<close>

definition update_item :: "py_env \<Rightarrow> store \<Rightarrow> pyval \<Rightarrow> error + pyval \<times> store" where
  "update_item env h item =
     (case py_get (resolve h item) (str ''type'') of
        Inl e \<Rightarrow> Inl e
      | Inr ty \<Rightarrow>
          if ty = PStr (str ''section'') \<and> py_has_key (resolve h item) (str ''text'') then
            (case py_subscript (resolve h item) (str ''text'') of
               Inl e \<Rightarrow> Inl e
             | Inr t \<Rightarrow>
                 (case py_subscript (resolve h t) (str ''text'') of
                    Inl e \<Rightarrow> Inl e
                  | Inr old \<Rightarrow>
                      (case py_unescape env (resolve h old) of
                         Inl e \<Rightarrow> Inl e
                       | Inr u \<Rightarrow>
                           (case py_slice_3000 u of
                              Inl e \<Rightarrow> Inl e
                            | Inr new \<Rightarrow>
                                (case py_setitem (resolve h t) (str ''text'') new of
                                   Inl e \<Rightarrow> Inl e
                                 | Inr inner' \<Rightarrow> put_text h item t inner')))))
          else Inr (item, h))"

text \<open>
  The loop over \<open>self.block_body\<close>. The items are edited in place, so the loop gives,
  next to its outcome, the contents of \<open>block_body\<close> and the store when it ends. The
  outcome is the list \<open>updated\<close>, or the error of the first item that raises, the
  items before it edited and the others not. An object that is held twice is met twice,
  and is edited each time.
\<close>

fun update_loop ::
  "py_env \<Rightarrow> store \<Rightarrow> pyval list \<Rightarrow> (error + pyval list) \<times> pyval list \<times> store" where
  "update_loop env h [] = (Inr [], [], h)"
| "update_loop env h (item # items) =
     (case update_item env h item of
        Inl e \<Rightarrow> (Inl e, item # items, h)
      | Inr (item', h') \<Rightarrow>
          (case update_loop env h' items of
             (Inl e, body, h'') \<Rightarrow> (Inl e, item' # body, h'')
           | (Inr updated, body, h'') \<Rightarrow> (Inr (item' # updated), item' # body, h'')))"

text \<open>
  \<open>not self.block_body\<close> holds of \<open>None\<close> and of the empty list. The method is
  given with the builder and the store as the call leaves them.
\<close>

definition feedback_update_block ::
  "py_env \<Rightarrow> store \<Rightarrow> BlockKit \<Rightarrow> (error + pyval) \<times> BlockKit \<times> store" where
  "feedback_update_block env h self =
     (if block_body self = None \<or> block_body self = Some [] then
        ((case build_answer_blocks env self of
            Inl e \<Rightarrow> Inl e
          | Inr payload \<Rightarrow> py_subscript payload (str ''blocks'')), self, h)
      else
        (case update_loop env h (case block_body self of Some items \<Rightarrow> items | None \<Rightarrow> []) of
           (r, body, h') \<Rightarrow>
             ((case r of Inl e \<Rightarrow> Inl e | Inr updated \<Rightarrow> Inr (PList updated)),
              self\<lparr>block_body := Some body\<rparr>, h')))"

definition feedback_update_block_session ::
  "py_env \<Rightarrow> store \<Rightarrow> BlockKit \<Rightarrow> (error + pyval) \<times> BlockKit \<times> store" where
  "feedback_update_block_session env h self = feedback_update_block env h self"

subsection \<open>Follow-ups\<close>

definition self_help_link_block :: "pyval list" where
  "self_help_link_block =
     [mk_section (str ''Thank you for your feedback. Alternatively, you may also find the ''
                @ str ''following self-help documentation useful:'' @ [0x0A]
                @ str ''<https://cloudtech.apple.com/docs|CloudTech Docs>'')]"

definition followup_block_kit :: "BlockKit \<Rightarrow> pyval list" where
  "followup_block_kit self =
     (let text = str ''Not clear yet? I can guide you one step at a time '' @ [0x2014] @ str '' ''
               @ str ''just @mention <@'' @ fmt (bot_id self) @ str ''> with your follow-up questions.''
      in [mk_section text])"

definition followup_delay_message :: "BlockKit \<Rightarrow> pyval list" where
  "followup_delay_message self =
     (let text = str ''Did you find the suggestion satisfactory? If not, you can ask me more ''
               @ str ''questions by sending me an @mention <@'' @ fmt (bot_id self) @ str ''>.''
      in [mk_section text])"

subsection \<open>Thread answer builder\<close>

definition thread_block_kit :: "py_env \<Rightarrow> BlockKit \<Rightarrow> error + pyval" where
  "thread_block_kit env self =
     (if \<not> truthy (llm_answer self)
      then Inr (PList [mk_section (no_suggestion (user_id self))])
      else (case (case llm_answer self of Some s \<Rightarrow> unescape env s | None \<Rightarrow> Inl TypeError) of
              Inl e \<Rightarrow> Inl e
            | Inr t \<Rightarrow>
                (let answer = take 3000 t;
                     blocks = [mk_section answer];
                     links = extract_links (Some answer);
                     blocks = blocks @ link_hint_blocks links;
                     blocks = blocks @ thread_feedback_block_kit
                 in Inr (PList blocks))))"

section \<open>HelpCentral ticket blocks\<close>

record HelpCentral =
  ticket_number :: "ustr option"
  ticket_url :: "ustr option"
  hc_user_id :: "ustr option"

definition open_ticket_cta :: pyval where
  "open_ticket_cta =
     PDict [(str ''blocks'', PList
       [mk_section (str ''Hello. If you are looking for assistance from CloudTech/CSE Support, ''
                  @ str ''please click the button to open a ticket; someone will follow up with you.''),
        PDict [(str ''type'', PStr (str ''actions'')),
               (str ''elements'', PList
                  [mk_button (str ''Open support request'') (str ''vertex_raise_ticket'')
                     None (str ''value'')])]])]"

definition clicked_ticket_button :: "HelpCentral \<Rightarrow> pyval" where
  "clicked_ticket_button self =
     PDict [(str ''blocks'', PList
       [mk_section (str ''<@'' @ fmt (hc_user_id self) @ str ''> clicked on *Open Support Request*'')])]"

definition ticket_creation_followup :: pyval where
  "ticket_creation_followup =
     PDict [(str ''blocks'', PList
       [PDict [(str ''type'', PStr (str ''rich_text'')),
               (str ''elements'', PList
                 [PDict [(str ''type'', PStr (str ''rich_text_section'')),
                         (str ''elements'', PList
                           [PDict [(str ''type'', PStr (str ''text'')),
                                   (str ''text'', PStr (str ''Creating your ticket'' @ [0x2026]
                                       @ str '' one moment please.''))]])]])]])]"




definition hc_outage :: pyval where
  "hc_outage =
     PDict [(str ''blocks'', PList
       [mk_section (str ''*Please be advised:* Due to a scheduled maintenance, ''
                  @ str ''HelpCentral will be offline from Friday, 01/31/2025 8:00 PM PT ''
                  @ str ''to Saturday, 02/01/2025.'')])]"

section \<open>Initial states\<close>

text \<open>\<open>BlockKit()\<close> and \<open>BlockKit.HelpCentral()\<close>: every field at its default \<open>None\<close>.\<close>

definition blockkit_init :: BlockKit where
  "blockkit_init = \<lparr>thread = None, question = None, user_id = None, block_body = None,
     channel_id = None, additional_details = None, bot_id = None, llm_answer = None,
     llm_link = None, channel_name = None\<rparr>"

definition helpcentral_init :: HelpCentral where
  "helpcentral_init = \<lparr>ticket_number = None, ticket_url = None, hc_user_id = None\<rparr>"

text \<open>A store without objects, for the closed examples: every address holds \<open>None\<close>.\<close>

definition store_init :: store where
  "store_init = (\<lambda>a. PNone)"

text \<open>
  An interpreter for the closed examples: the digit limit at its default, and of the
  table \<open>html.entities.html5\<close> the names of the five predefined entities. The
  theorems below hold for every table and every limit.
\<close>

definition html5_excerpt :: "(ustr \<times> ustr) list" where
  "html5_excerpt =
     [(str ''amp;'', [0x26]), (str ''amp'', [0x26]),
      (str ''lt;'', [0x3C]), (str ''lt'', [0x3C]),
      (str ''gt;'', [0x3E]), (str ''gt'', [0x3E]),
      (str ''quot;'', [0x22]), (str ''quot'', [0x22]),
      (str ''apos;'', [0x27])]"

definition env_default :: py_env where
  "env_default = \<lparr>html5 = map_of html5_excerpt, int_max_str_digits = 4300\<rparr>"

section \<open>The specification's descriptions\<close>

subsection \<open>The links of a text\<close>





subsection \<open>The thread reply seen from the message payload\<close>





subsection \<open>The edit of an existing payload\<close>

text \<open>
  The specification describes the edit block by block. The definitions of this
  subsection follow these words. A block of section type carrying a text sub-field:
\<close>

definition is_text_section :: "pyval \<Rightarrow> bool" where
  "is_text_section item \<longleftrightarrow>
     (case item of
        PDict d \<Rightarrow> map_of d (str ''type'') = Some (PStr (str ''section''))
                   \<and> map_of d (str ''text'') \<noteq> None
      | _ \<Rightarrow> False)"

text \<open>The text of a section: the string under \<open>text\<close> in the mapping under \<open>text\<close>.\<close>

definition section_text :: "pyval \<Rightarrow> ustr option" where
  "section_text item =
     (case item of
        PDict d \<Rightarrow>
          (case map_of d (str ''text'') of
             Some (PDict inner) \<Rightarrow>
               (case map_of inner (str ''text'') of Some (PStr s) \<Rightarrow> Some s | _ \<Rightarrow> None)
           | _ \<Rightarrow> None)
      | _ \<Rightarrow> None)"

text \<open>The block with that string replaced, everything else as it was.\<close>

definition with_section_text :: "pyval \<Rightarrow> ustr \<Rightarrow> pyval" where
  "with_section_text item s =
     (case item of
        PDict d \<Rightarrow>
          (case map_of d (str ''text'') of
             Some (PDict inner) \<Rightarrow>
               PDict (AList.update (str ''text'')
                        (PDict (AList.update (str ''text'') (PStr s) inner)) d)
           | _ \<Rightarrow> item)
      | _ \<Rightarrow> item)"

text \<open>
  A block the edit is described for: a mapping, and when it is a section carrying a text
  sub-field, one whose text is a mapping of its own (written out in the block, not an
  object of the store) with a string on which \<open>html.unescape\<close> returns.
\<close>

definition block_ok :: "py_env \<Rightarrow> pyval \<Rightarrow> bool" where
  "block_ok env item \<longleftrightarrow>
     (case item of
        PDict d \<Rightarrow>
          (if is_text_section item
           then (case section_text item of
                   Some s \<Rightarrow> (case unescape env s of Inr t \<Rightarrow> True | Inl e \<Rightarrow> False)
                 | None \<Rightarrow> False)
           else True)
      | _ \<Rightarrow> False)"

text \<open>
  The edit: the text of a section unescaped and cut to 3000 characters, every other
  block left as it is.
\<close>

definition edited :: "py_env \<Rightarrow> pyval \<Rightarrow> pyval" where
  "edited env item =
     (if is_text_section item
      then (case section_text item of
              Some s \<Rightarrow> (case unescape env s of
                           Inr t \<Rightarrow> with_section_text item (take 3000 t)
                         | Inl e \<Rightarrow> item)
            | None \<Rightarrow> item)
      else item)"

text \<open>The text sub-field of a block is a mapping, in the store \<open>h\<close>.\<close>

definition text_is_mapping :: "store \<Rightarrow> pyval \<Rightarrow> bool" where
  "text_is_mapping h item \<longleftrightarrow>
     (\<exists>t inner. py_subscript (resolve h item) (str ''text'') = Inr t \<and> resolve h t = PDict inner)"

text \<open>
  What one pass of the loop's body can do to the store: nothing, or put \<open>w\<close> under
  \<open>text\<close> in one dict that had \<open>w0\<close> there, a mapping for a mapping and something
  else for something else.
\<close>

definition edit_step :: "store \<Rightarrow> store \<Rightarrow> bool" where
  "edit_step h h' \<longleftrightarrow>
     h' = h \<or>
     (\<exists>c d w w0. h c = PDict d \<and> map_of d (str ''text'') = Some w0
        \<and> h' = h(c := PDict (AList.update (str ''text'') w d))
        \<and> ((\<exists>i. resolve h w = PDict i) \<longleftrightarrow> (\<exists>i. resolve h w0 = PDict i)))"

section \<open>Facts about \<open>html.unescape\<close> and the link pattern\<close>

lemma charref_match_not_amp: "c \<noteq> 0x26 \<Longrightarrow> charref_match (c # cs) = None"
  by (simp add: charref_match_def)

lemma charref_sub_no_amp: "0x26 \<notin> set s \<Longrightarrow> charref_sub env s = Inr s"
  by (induction s) (auto simp: charref_match_not_amp)

lemma opt_semi_append: "opt_semi xs = (semi, rest) \<Longrightarrow> semi @ rest = xs"
  by (cases xs) (auto split: if_splits)

lemma opt_semi_cases: "opt_semi xs = (semi, rest) \<Longrightarrow> semi = [] \<or> semi = [0x3B]"
  by (cases xs) (auto split: if_splits)

lemma takeWhile_take_prefix:
  "takeWhile P (take n xs) @ drop (length (takeWhile P (take n xs))) xs = xs"
proof -
  let ?k = "length (takeWhile P (take n xs))"
  have "?k \<le> length (take n xs)" by (rule length_takeWhile_le)
  then have k: "?k \<le> n" by simp
  have "takeWhile P (take n xs) = take ?k (take n xs)"
    by (rule takeWhile_eq_take)
  also have "\<dots> = take ?k xs" using k by (simp add: min_def)
  finally show ?thesis by (metis append_take_drop_id)
qed

lemma alt_dec_shape:
  assumes "alt_dec cs = Some (g, rest)"
  shows "\<exists>ds semi. g = 0x23 # ds @ semi \<and> ds \<noteq> [] \<and> list_all is_dec ds
       \<and> (semi = [] \<or> semi = [0x3B]) \<and> cs = g @ rest"
proof -
  obtain h ds where cs: "cs = h # ds"
    using assms by (cases cs) (auto simp: alt_dec_def)
  obtain semi r where os: "opt_semi (dropWhile is_dec ds) = (semi, r)"
    by (cases "opt_semi (dropWhile is_dec ds)")
  from assms cs os have h: "h = 0x23" and ne: "takeWhile is_dec ds \<noteq> []"
    and g: "g = h # takeWhile is_dec ds @ semi" and r: "rest = r"
    by (auto simp: alt_dec_def split: if_splits)
  have all: "list_all is_dec (takeWhile is_dec ds)"
    by (auto simp: list_all_iff dest: set_takeWhileD)
  have "semi @ r = dropWhile is_dec ds" using os by (rule opt_semi_append)
  then have "cs = g @ rest" using cs g r by simp
  then show ?thesis using h ne g all opt_semi_cases [OF os] by blast
qed

lemma alt_hex_shape:
  assumes "alt_hex cs = Some (g, rest)"
  shows "\<exists>x hs semi. g = 0x23 # x # hs @ semi \<and> (x = 0x78 \<or> x = 0x58) \<and> hs \<noteq> []
       \<and> list_all is_hex hs \<and> (semi = [] \<or> semi = [0x3B]) \<and> cs = g @ rest"
proof -
  obtain h x hs where cs: "cs = h # x # hs"
    using assms by (cases cs; cases "tl cs") (auto simp: alt_hex_def)
  obtain semi r where os: "opt_semi (dropWhile is_hex hs) = (semi, r)"
    by (cases "opt_semi (dropWhile is_hex hs)")
  from assms cs os have h: "h = 0x23" and x: "x = 0x78 \<or> x = 0x58"
    and ne: "takeWhile is_hex hs \<noteq> []"
    and g: "g = h # x # takeWhile is_hex hs @ semi" and r: "rest = r"
    by (auto simp: alt_hex_def split: if_splits)
  have all: "list_all is_hex (takeWhile is_hex hs)"
    by (auto simp: list_all_iff dest: set_takeWhileD)
  have "semi @ r = dropWhile is_hex hs" using os by (rule opt_semi_append)
  then have "cs = g @ rest" using cs g r by simp
  then show ?thesis using h x ne g all opt_semi_cases [OF os] by blast
qed

lemma alt_name_shape:
  assumes "alt_name cs = Some (g, rest)"
  shows "\<exists>nm semi. g = nm @ semi \<and> nm \<noteq> [] \<and> list_all name_char nm
       \<and> (semi = [] \<or> semi = [0x3B]) \<and> cs = g @ rest"
proof -
  let ?nm = "takeWhile name_char (take 32 cs)"
  obtain semi r where os: "opt_semi (drop (length ?nm) cs) = (semi, r)"
    by (cases "opt_semi (drop (length ?nm) cs)")
  from assms os have ne: "?nm \<noteq> []" and g: "g = ?nm @ semi" and r: "rest = r"
    by (auto simp: alt_name_def Let_def split: if_splits)
  have all: "list_all name_char ?nm"
    by (auto simp: list_all_iff dest: set_takeWhileD)
  have "semi @ r = drop (length ?nm) cs" using os by (rule opt_semi_append)
  then have "cs = g @ rest" using g r takeWhile_take_prefix [of name_char 32 cs] by simp
  then show ?thesis using ne g all opt_semi_cases [OF os] by blast
qed

lemma charref_match_shape:
  "charref_match s = Some (g, rest) \<Longrightarrow> s = 0x26 # g @ rest"
  by (cases s)
     (auto simp: charref_match_def split: if_splits option.splits
       dest: alt_dec_shape alt_hex_shape alt_name_shape)

lemma rstrip_semi_digits:
  assumes "ds \<noteq> []" and "0x3B \<notin> set ds" and "semi = [] \<or> semi = [0x3B]"
  shows "rstrip_semi (ds @ semi) = ds"
proof -
  have "last ds \<noteq> 0x3B" using assms(1,2) last_in_set by metis
  then have "dropWhile (\<lambda>c. c = 0x3B) (rev ds) = rev ds"
    using assms(1) by (cases "rev ds") (auto simp: last_rev [symmetric] hd_rev)
  then show ?thesis using assms(3) by (auto simp: rstrip_semi_def)
qed

lemma replace_charref_error:
  assumes m: "charref_match s = Some (g, rest)" and e: "replace_charref env g = Inl e"
  shows "e = ValueError \<and> 0 < int_max_str_digits env \<and> int_max_str_digits env < length g"
proof -
  obtain cs where s: "s = 0x26 # cs" using m by (cases s) (auto simp: charref_match_def split: if_splits)
  consider (dec) "alt_dec cs = Some (g, rest)"
    | (hex) "alt_hex cs = Some (g, rest)"
    | (name) "alt_name cs = Some (g, rest)"
    using m s by (auto simp: charref_match_def split: option.splits)
  then show ?thesis
  proof cases
    case dec
    then obtain ds semi where g: "g = 0x23 # ds @ semi" and ne: "ds \<noteq> []"
      and all: "list_all is_dec ds" and semi: "semi = [] \<or> semi = [0x3B]"
      using alt_dec_shape by blast
    obtain d ds' where ds: "ds = d # ds'" using ne by (cases ds) auto
    have d: "is_dec d" using all ds by simp
    then have nx: "d \<noteq> 0x78 \<and> d \<noteq> 0x58" by (auto simp: is_dec_def)
    have "0x3B \<notin> set ds" using all by (auto simp: list_all_iff is_dec_def)
    then have strip: "rstrip_semi (ds @ semi) = ds" using ne semi by (simp add: rstrip_semi_digits)
    have "int_dec env ds = Inl e"
      using e g ds nx strip by (auto simp: replace_charref_def split: sum.splits)
    then show ?thesis using all ne g by (auto simp: int_dec_def split: if_splits)
  next
    case hex
    then obtain x hs semi where g: "g = 0x23 # x # hs @ semi" and x: "x = 0x78 \<or> x = 0x58"
      and ne: "hs \<noteq> []" and all: "list_all is_hex hs" and semi: "semi = [] \<or> semi = [0x3B]"
      using alt_hex_shape by blast
    have "0x3B \<notin> set hs" using all by (auto simp: list_all_iff is_hex_def is_dec_def)
    then have strip: "rstrip_semi (hs @ semi) = hs" using ne semi by (simp add: rstrip_semi_digits)
    have "int_hex hs = Inl e"
      using e g x strip by (auto simp: replace_charref_def split: sum.splits)
    then show ?thesis using all ne by (auto simp: int_hex_def)
  next
    case name
    then obtain nm semi where g: "g = nm @ semi" and ne: "nm \<noteq> []" and all: "list_all name_char nm"
      using alt_name_shape by blast
    obtain c nm' where nm: "nm = c # nm'" using ne by (cases nm) auto
    have "c \<noteq> 0x23" using all nm by (auto simp: name_char_def)
    then show ?thesis using e g nm by (auto simp: replace_charref_def)
  qed
qed

lemma charref_sub_error:
  "charref_sub env s = Inl e \<Longrightarrow>
     e = ValueError \<and> 0 < int_max_str_digits env \<and> int_max_str_digits env < length s"
proof (induction env s rule: charref_sub.induct)
  case (1 env)
  then show ?case by simp
next
  case (2 env c cs)
  show ?case
  proof (cases "charref_match (c # cs)")
    case None
    then have "charref_sub env cs = Inl e"
      using "2.prems" by (auto split: sum.splits)
    then show ?thesis using "2.IH"(1) [OF None] by fastforce
  next
    case (Some a)
    obtain g rest where a: "a = (g, rest)" by (cases a)
    have shape: "c # cs = 0x26 # g @ rest"
      using Some a charref_match_shape by blast
    show ?thesis
    proof (cases "replace_charref env g")
      case (Inl e')
      then have "e' = e" using "2.prems" Some a by simp
      then show ?thesis
        using replace_charref_error [of "c # cs" g rest env e] Some a Inl shape
        by (metis length_append length_Cons less_Suc_eq trans_less_add1)
    next
      case (Inr r)
      then have "charref_sub env rest = Inl e"
        using "2.prems" Some a by (auto split: sum.splits)
      then have "e = ValueError \<and> 0 < int_max_str_digits env \<and> int_max_str_digits env < length rest"
        using "2.IH"(2) [OF Some a [symmetric] Inr] by simp
      then show ?thesis using shape
        by (metis length_append length_Cons less_Suc_eq trans_less_add2)
    qed
  qed
qed

lemma unescape_error:
  "unescape env s = Inl e \<Longrightarrow>
     e = ValueError \<and> 0 < int_max_str_digits env \<and> int_max_str_digits env < length s"
  by (auto simp: unescape_def dest: charref_sub_error split: if_splits)

lemma unescape_no_amp: "0x26 \<notin> set s \<Longrightarrow> unescape env s = Inr s"
  by (simp add: unescape_def)

lemma unescape_amp_long:
  "unescape env_default (str ''&amp;'' @ replicate n 0x61) = Inr (0x26 # replicate n 0x61)"
proof -
  have m: "charref_match (str ''&amp;'' @ replicate n 0x61) = Some (str ''amp;'', replicate n 0x61)"
    by (cases n) (simp_all add: charref_match_def alt_dec_def alt_hex_def alt_name_def str_def name_char_def Let_def)
  have r: "replace_charref env_default (str ''amp;'') = Inr [0x26]"
    by (simp add: replace_charref_def env_default_def html5_excerpt_def str_def)
  have t: "charref_sub env_default (replicate n 0x61) = Inr (replicate n 0x61)"
    by (rule charref_sub_no_amp) simp
  have "charref_sub env_default (0x26 # (str ''amp;'' @ replicate n 0x61)) = Inr (0x26 # replicate n 0x61)"
    using m r t by (simp add: str_def)
  then show ?thesis by (simp add: unescape_def str_def)
qed

lemma http_link_match_not_h: "\<not> is_h c \<Longrightarrow> http_link_match (c # cs) = None"
  by (simp add: http_link_match_def split: list.splits)

lemma findall_no_h: "\<forall>c\<in>set s. \<not> is_h c \<Longrightarrow> findall s = []"
  by (induction s) (simp_all add: http_link_match_not_h)

lemma extract_links_no_h: "\<forall>c\<in>set s. \<not> is_h c \<Longrightarrow> extract_links (Some s) = []"
  using findall_no_h [of s] by (simp add: extract_links_def)

lemma update_item_mk_section:
  "unescape env s = Inr t \<Longrightarrow>
     update_item env h (mk_section s) = Inr (mk_section (take 3000 t), h)"
  by (simp add: update_item_def put_text_def mk_section_def str_def)

lemma build_answer_blocks_answer:
  "llm_answer self = Some s \<Longrightarrow> s \<noteq> [] \<Longrightarrow> unescape env s = Inr t \<Longrightarrow>
     build_answer_blocks env self =
       Inr (PDict [(str ''blocks'', PList
         (mk_section preamble # mk_section (take 3000 t)
          # link_hint_blocks (extract_links (Some (take 3000 t))) @ feedback_block_kit))])"
  by (simp add: build_answer_blocks_def Let_def)

lemma thread_block_kit_answer:
  "llm_answer self = Some s \<Longrightarrow> s \<noteq> [] \<Longrightarrow> unescape env s = Inr t \<Longrightarrow>
     thread_block_kit env self =
       Inr (PList
         (mk_section (take 3000 t)
          # link_hint_blocks (extract_links (Some (take 3000 t))) @ thread_feedback_block_kit))"
  by (simp add: thread_block_kit_def Let_def)

lemma unescape_example:
  "unescape env_default (str ''A &amp; B'') = Inr (str ''A & B'')"
  by (simp add: unescape_def str_def charref_match_def alt_dec_def alt_hex_def alt_name_def
      name_char_def Let_def replace_charref_def env_default_def html5_excerpt_def)


section \<open>Routing labels\<close>

lemma mapping_lookups:
  "map_of mapping (str ''help-gcp-apple'') = Some (str ''GCP'')"
  "map_of mapping (str ''help-aws-apple'') = Some (str ''AWS'')"
  "map_of mapping (str ''help-oci-apple'') = Some (str ''OCI'')"
  "map_of mapping (str ''help-icloud-apple'') = Some (str ''iCloud'')"
  "map_of mapping (str ''help-alicloud'') = Some (str ''Alicloud'')"
  "map_of mapping (str ''help-linux-found'') = Some (str ''Linux Foundation'')"
  "map_of mapping (str ''help-rubix'') = Some (str ''Rubix'')"
  "map_of mapping (str ''help-spinclou'') = Some (str ''Spincloud'')"
  "map_of mapping [] = None"
  by (simp_all add: mapping_def str_def)

text \<open>
  C1, as amended. A route key of the table sets the label of the table, the eight
  documented keys the eight documented labels. A non-empty key that is not in the table
  is kept as the label, unchanged. The empty key and an absent key set the label
  \<open>General\<close>. No other field of the builder changes.
\<close>

theorem set_channel_name_label:
  "(map_of mapping k = Some label \<longrightarrow>
      set_channel_name self (Some k) = self\<lparr>channel_name := Some label\<rparr>)
   \<and> (map_of mapping k = None \<and> k \<noteq> [] \<longrightarrow>
      set_channel_name self (Some k) = self\<lparr>channel_name := Some k\<rparr>)
   \<and> set_channel_name self (Some []) = self\<lparr>channel_name := Some (str ''General'')\<rparr>
   \<and> set_channel_name self None = self\<lparr>channel_name := Some (str ''General'')\<rparr>
   \<and> map_of mapping (str ''help-gcp-apple'') = Some (str ''GCP'')
   \<and> map_of mapping (str ''help-aws-apple'') = Some (str ''AWS'')
   \<and> map_of mapping (str ''help-oci-apple'') = Some (str ''OCI'')
   \<and> map_of mapping (str ''help-icloud-apple'') = Some (str ''iCloud'')
   \<and> map_of mapping (str ''help-alicloud'') = Some (str ''Alicloud'')
   \<and> map_of mapping (str ''help-linux-found'') = Some (str ''Linux Foundation'')
   \<and> map_of mapping (str ''help-rubix'') = Some (str ''Rubix'')
   \<and> map_of mapping (str ''help-spinclou'') = Some (str ''Spincloud'')"
  by (simp add: set_channel_name_def mapping_lookups)

text \<open>The theorem at a key of the table and at a key that is not in it.\<close>

theorem set_channel_name_label_witness:
  "set_channel_name blockkit_init (Some (str ''help-oci-apple''))
     = blockkit_init\<lparr>channel_name := Some (str ''OCI'')\<rparr>
   \<and> set_channel_name blockkit_init (Some (str ''help-azure''))
     = blockkit_init\<lparr>channel_name := Some (str ''help-azure'')\<rparr>"
proof -
  have known: "map_of mapping (str ''help-oci-apple'') = Some (str ''OCI'')"
    by (simp add: mapping_def str_def)
  have unknown: "map_of mapping (str ''help-azure'') = None \<and> str ''help-azure'' \<noteq> []"
    by (simp add: mapping_def str_def)
  show ?thesis
    using set_channel_name_label [of "str ''help-oci-apple''" "str ''OCI''" blockkit_init] known
      set_channel_name_label [of "str ''help-azure''" "[]" blockkit_init] unknown
    by blast
qed

text \<open>
  The claim as the specification words it fails: the key \<open>help-azure\<close> is not in the
  table, and the label it sets is \<open>help-azure\<close>, not \<open>General\<close>.
\<close>

theorem set_channel_name_unknown_counterexample:
  "map_of mapping (str ''help-azure'') = None
   \<and> channel_name (set_channel_name blockkit_init (Some (str ''help-azure''))) = Some (str ''help-azure'')
   \<and> channel_name (set_channel_name blockkit_init (Some (str ''help-azure''))) \<noteq> Some (str ''General'')"
  by (simp add: set_channel_name_def mapping_def str_def)

section \<open>The answer payload without an answer\<close>



section \<open>The ticket outcome\<close>



section \<open>Truncation of the answer text\<close>

text \<open>
  C2, as amended. The answer is unescaped first and cut to 3000 characters afterwards.
  When \<open>html.unescape\<close> returns \<open>t\<close> for the answer \<open>s\<close>, the text field that
  \<open>build_answer_blocks\<close>, \<open>thread_block_kit\<close> and the section update of
  \<open>feedback_update_block\<close> produce is the first 3000 characters of \<open>t\<close>: at most 3000
  characters, and exactly 3000 when \<open>t\<close> has that many, as it has for every \<open>s\<close> longer
  than 3000 without an ampersand. A long text is cut, and its length is no cause of an
  error.
\<close>

theorem answer_text_truncated:
  assumes "llm_answer self = Some s" and "s \<noteq> []" and "unescape env s = Inr t"
  shows "build_answer_blocks env self =
       Inr (PDict [(str ''blocks'', PList
         (mk_section preamble # mk_section (take 3000 t)
          # link_hint_blocks (extract_links (Some (take 3000 t))) @ feedback_block_kit))])
   \<and> thread_block_kit env self =
       Inr (PList
         (mk_section (take 3000 t)
          # link_hint_blocks (extract_links (Some (take 3000 t))) @ thread_feedback_block_kit))
   \<and> fst (feedback_update_block env h (self\<lparr>block_body := Some [mk_section s]\<rparr>))
       = Inr (PList [mk_section (take 3000 t)])
   \<and> length (take 3000 t) = min 3000 (length t)
   \<and> (0x26 \<notin> set s \<longrightarrow> t = s)
   \<and> (0x26 \<notin> set s \<and> 3000 < length s \<longrightarrow> length (take 3000 t) = 3000)"
proof -
  have upd: "fst (feedback_update_block env h (self\<lparr>block_body := Some [mk_section s]\<rparr>))
       = Inr (PList [mk_section (take 3000 t)])"
    using update_item_mk_section [OF assms(3)] by (simp add: feedback_update_block_def)
  have same: "0x26 \<notin> set s \<longrightarrow> t = s"
    using assms(3) by (auto simp: unescape_def)
  show ?thesis
    using build_answer_blocks_answer [OF assms] thread_block_kit_answer [OF assms] upd same
    by auto
qed

text \<open>The theorem at the answer \<open>A &amp; B\<close>.\<close>

theorem answer_text_truncated_witness:
  "build_answer_blocks env_default (blockkit_init\<lparr>llm_answer := Some (str ''A &amp; B'')\<rparr>) =
       Inr (PDict [(str ''blocks'', PList
         (mk_section preamble # mk_section (str ''A & B'') # feedback_block_kit))])
   \<and> thread_block_kit env_default (blockkit_init\<lparr>llm_answer := Some (str ''A &amp; B'')\<rparr>) =
       Inr (PList (mk_section (str ''A & B'') # thread_feedback_block_kit))
   \<and> fst (feedback_update_block env_default store_init
            (blockkit_init\<lparr>llm_answer := Some (str ''A &amp; B''),
                           block_body := Some [mk_section (str ''A &amp; B'')]\<rparr>))
       = Inr (PList [mk_section (str ''A & B'')])"
proof -
  have a: "llm_answer (blockkit_init\<lparr>llm_answer := Some (str ''A &amp; B'')\<rparr>) = Some (str ''A &amp; B'')"
    by simp
  have b: "str ''A &amp; B'' \<noteq> []" by (simp add: str_def)
  have links: "extract_links (Some (take 3000 (str ''A & B''))) = []"
    by (rule extract_links_no_h) (simp add: str_def is_h_def)
  have short: "take 3000 (str ''A & B'') = str ''A & B''"
    by (simp add: str_def)
  show ?thesis
    using answer_text_truncated [OF a b unescape_example] links short
    by (simp add: link_hint_blocks_def)
qed

text \<open>
  The claim as the specification words it fails: an answer of 3001 characters that starts
  with the reference \<open>&amp;\<close> is unescaped to 2997 characters, and the text field has
  2997 characters, not 3000.
\<close>

theorem answer_text_shorter_counterexample:
  "length (str ''&amp;'' @ replicate 2996 0x61) = 3001
   \<and> build_answer_blocks env_default
        (blockkit_init\<lparr>llm_answer := Some (str ''&amp;'' @ replicate 2996 0x61)\<rparr>) =
       Inr (PDict [(str ''blocks'', PList
         (mk_section preamble # mk_section (0x26 # replicate 2996 0x61) # feedback_block_kit))])
   \<and> length (0x26 # replicate 2996 (0x61 :: nat)) = 2997"
proof -
  have links: "extract_links (Some (0x26 # replicate 2996 0x61)) = []"
    by (rule extract_links_no_h) (simp add: is_h_def)
  have "build_answer_blocks env_default
        (blockkit_init\<lparr>llm_answer := Some (str ''&amp;'' @ replicate 2996 0x61)\<rparr>) =
       Inr (PDict [(str ''blocks'', PList
         (mk_section preamble # mk_section (0x26 # replicate 2996 0x61) # feedback_block_kit))])"
    using build_answer_blocks_answer [OF _ _ unescape_amp_long [of 2996],
        of "blockkit_init\<lparr>llm_answer := Some (str ''&amp;'' @ replicate 2996 0x61)\<rparr>"] links
    by (simp add: link_hint_blocks_def str_def)
  then show ?thesis by (simp add: str_def)
qed

section \<open>Link extraction\<close>















lemma findall_skip_prefix:
  "\<forall>c\<in>set pre. \<not> is_h c \<Longrightarrow> findall (pre @ s) = findall s"
  by (induction pre) (simp_all add: http_link_match_not_h)


lemma findall_one_example: "findall (str ''http://a.b'') = [str ''http://a.b'']"
  by (simp add: str_def http_link_match_def match_tail_def is_h_def is_t_def is_p_def is_s_def
      url_char_def is_space_def)



section \<open>The answer payload with one link\<close>

text \<open>
  C4, as amended. The links are looked for in the answer as it is shown: unescaped and
  cut to 3000 characters. When that text holds exactly one URL, \<open>build_answer_blocks\<close>
  returns, in this order, the preamble section, the answer section, one link-hint section
  listing the URL, a divider, the feedback prompt, and an actions block with the two
  buttons \<open>vertex_positive\<close> and \<open>vertex_negative\<close>.
\<close>

theorem build_answer_blocks_one_link:
  assumes "llm_answer self = Some s" and "s \<noteq> []" and "unescape env s = Inr t"
    and "extract_links (Some (take 3000 t)) = [u]"
  shows "build_answer_blocks env self =
     Inr (PDict [(str ''blocks'', PList
       [mk_section (str ''Thank you for submitting a request with Cloud Tech. ''
                  @ str ''Based on your query, the following answer has been found:''),
        mk_section (take 3000 t),
        mk_section (str ''*The following link(s) might help you:*'' @ [0x0A] @ [0x2022, 0x20] @ u),
        PDict [(str ''type'', PStr (str ''divider''))],
        mk_section (str ''Did you find our suggestion satisfactory?''),
        PDict [(str ''type'', PStr (str ''actions'')),
               (str ''elements'', PList
                 [PDict [(str ''type'', PStr (str ''button'')),
                         (str ''text'', PDict [(str ''type'', PStr (str ''plain_text'')),
                                               (str ''text'', PStr [0x1F44D]),
                                               (str ''emoji'', PBool True)]),
                         (str ''value'', PStr (str ''value'')),
                         (str ''action_id'', PStr (str ''vertex_positive'')),
                         (str ''style'', PStr (str ''primary''))],
                  PDict [(str ''type'', PStr (str ''button'')),
                         (str ''text'', PDict [(str ''type'', PStr (str ''plain_text'')),
                                               (str ''text'', PStr [0x1F44E]),
                                               (str ''emoji'', PBool True)]),
                         (str ''value'', PStr (str ''value'')),
                         (str ''action_id'', PStr (str ''vertex_negative'')),
                         (str ''style'', PStr (str ''danger''))]])]])])"
proof -
  have hint: "link_hint_blocks [u] =
      [mk_section (str ''*The following link(s) might help you:*'' @ [0x0A] @ [0x2022, 0x20] @ u)]"
    by (simp add: link_hint_blocks_def)
  have btn: "mk_button x a (Some (str ''primary'')) v =
      PDict [(str ''type'', PStr (str ''button'')),
             (str ''text'', PDict [(str ''type'', PStr (str ''plain_text'')),
                                   (str ''text'', PStr x), (str ''emoji'', PBool True)]),
             (str ''value'', PStr v), (str ''action_id'', PStr a),
             (str ''style'', PStr (str ''primary''))]"
    "mk_button x a (Some (str ''danger'')) v =
      PDict [(str ''type'', PStr (str ''button'')),
             (str ''text'', PDict [(str ''type'', PStr (str ''plain_text'')),
                                   (str ''text'', PStr x), (str ''emoji'', PBool True)]),
             (str ''value'', PStr v), (str ''action_id'', PStr a),
             (str ''style'', PStr (str ''danger''))]" for x a v
    by (simp_all add: mk_button_def str_def)
  show ?thesis
    using build_answer_blocks_answer [OF assms(1-3)] assms(4) hint
    by (simp add: feedback_block_kit_def btn divider_def preamble_def feedback_prompt_def)
qed

text \<open>The theorem at the answer \<open>see http://a.b\<close>.\<close>

theorem build_answer_blocks_one_link_witness:
  "build_answer_blocks env_default (blockkit_init\<lparr>llm_answer := Some (str ''see http://a.b'')\<rparr>) =
     Inr (PDict [(str ''blocks'', PList
       [mk_section (str ''Thank you for submitting a request with Cloud Tech. ''
                  @ str ''Based on your query, the following answer has been found:''),
        mk_section (str ''see http://a.b''),
        mk_section (str ''*The following link(s) might help you:*'' @ [0x0A] @ [0x2022, 0x20]
                  @ str ''http://a.b''),
        PDict [(str ''type'', PStr (str ''divider''))],
        mk_section (str ''Did you find our suggestion satisfactory?''),
        PDict [(str ''type'', PStr (str ''actions'')),
               (str ''elements'', PList
                 [PDict [(str ''type'', PStr (str ''button'')),
                         (str ''text'', PDict [(str ''type'', PStr (str ''plain_text'')),
                                               (str ''text'', PStr [0x1F44D]),
                                               (str ''emoji'', PBool True)]),
                         (str ''value'', PStr (str ''value'')),
                         (str ''action_id'', PStr (str ''vertex_positive'')),
                         (str ''style'', PStr (str ''primary''))],
                  PDict [(str ''type'', PStr (str ''button'')),
                         (str ''text'', PDict [(str ''type'', PStr (str ''plain_text'')),
                                               (str ''text'', PStr [0x1F44E]),
                                               (str ''emoji'', PBool True)]),
                         (str ''value'', PStr (str ''value'')),
                         (str ''action_id'', PStr (str ''vertex_negative'')),
                         (str ''style'', PStr (str ''danger''))]])]])])"
proof -
  let ?s = "str ''see http://a.b''"
  have a: "llm_answer (blockkit_init\<lparr>llm_answer := Some ?s\<rparr>) = Some ?s" by simp
  have b: "?s \<noteq> []" by (simp add: str_def)
  have c: "unescape env_default ?s = Inr ?s"
    by (rule unescape_no_amp) (simp add: str_def)
  have short: "take 3000 ?s = ?s" by (simp add: str_def)
  have "findall (str ''see '' @ str ''http://a.b'') = findall (str ''http://a.b'')"
    by (rule findall_skip_prefix) (simp add: str_def is_h_def)
  then have "findall ?s = [str ''http://a.b'']"
    using findall_one_example by (simp add: str_def)
  then have d: "extract_links (Some (take 3000 ?s)) = [str ''http://a.b'']"
    using short b by (simp add: extract_links_def)
  show ?thesis
    using build_answer_blocks_one_link [OF a b c d] short by simp
qed

text \<open>
  The claim as the specification words it fails: the answer of 3000 letters followed by
  \<open> http://a.b\<close> holds exactly one URL, behind the cut, and the payload has five blocks
  and no link hint.
\<close>

theorem build_answer_blocks_late_link_counterexample:
  "extract_links (Some (replicate 3000 0x61 @ str '' http://a.b'')) = [str ''http://a.b'']
   \<and> build_answer_blocks env_default
        (blockkit_init\<lparr>llm_answer := Some (replicate 3000 0x61 @ str '' http://a.b'')\<rparr>) =
       Inr (PDict [(str ''blocks'', PList
         (mk_section preamble # mk_section (replicate 3000 0x61) # feedback_block_kit))])
   \<and> length (mk_section preamble # mk_section (replicate 3000 0x61) # feedback_block_kit) = 5"
proof -
  let ?s = "replicate 3000 0x61 @ str '' http://a.b''"
  have "findall ((replicate 3000 0x61 @ str '' '') @ str ''http://a.b'') = findall (str ''http://a.b'')"
    by (rule findall_skip_prefix) (simp add: str_def is_h_def)
  then have one: "extract_links (Some ?s) = [str ''http://a.b'']"
    using findall_one_example by (simp add: extract_links_def str_def)
  have a: "llm_answer (blockkit_init\<lparr>llm_answer := Some ?s\<rparr>) = Some ?s" by simp
  have b: "?s \<noteq> []" by simp
  have c: "unescape env_default ?s = Inr ?s"
    by (rule unescape_no_amp) (simp add: str_def)
  have cut: "take 3000 ?s = replicate 3000 0x61" by simp
  have none: "extract_links (Some (replicate 3000 0x61)) = []"
    by (rule extract_links_no_h) (simp add: is_h_def)
  have "build_answer_blocks env_default (blockkit_init\<lparr>llm_answer := Some ?s\<rparr>) =
       Inr (PDict [(str ''blocks'', PList
         (mk_section preamble # mk_section (replicate 3000 0x61) # feedback_block_kit))])"
    using build_answer_blocks_answer [OF a b c] none
    by (simp only: cut) (simp add: link_hint_blocks_def)
  then show ?thesis using one by (simp add: feedback_block_kit_def)
qed

section \<open>The thread reply\<close>







section \<open>The edit of an existing payload\<close>

lemma update_item_obj_other:
  "resolve h item = PDict d \<Longrightarrow> \<not> is_text_section (PDict d) \<Longrightarrow>
     update_item env h item = Inr (item, h)"
  by (auto simp: update_item_def is_text_section_def split: option.splits)

lemma update_item_obj_section:
  assumes "resolve h item = PDict d" and "is_text_section (PDict d)"
    and "section_text (PDict d) = Some s" and "unescape env s = Inr t"
  shows "update_item env h item =
     (case item of
        PRef a \<Rightarrow> Inr (item, h(a := with_section_text (PDict d) (take 3000 t)))
      | _ \<Rightarrow> Inr (with_section_text (PDict d) (take 3000 t), h))"
proof -
  from assms(3) obtain inner where i: "map_of d (str ''text'') = Some (PDict inner)"
    and s: "map_of inner (str ''text'') = Some (PStr s)"
    by (auto simp: section_text_def split: option.splits pyval.splits)
  have ty: "map_of d (str ''type'') = Some (PStr (str ''section''))"
    using assms(2) by (simp add: is_text_section_def)
  show ?thesis
    using i s ty assms(1,4)
    by (cases item) (simp_all add: update_item_def put_text_def with_section_text_def)
qed

lemma update_item_other:
  "\<not> is_text_section (PDict d) \<Longrightarrow> update_item env h (PDict d) = Inr (PDict d, h)"
  by (rule update_item_obj_other) simp_all

lemma update_item_section:
  assumes "is_text_section (PDict d)" and "section_text (PDict d) = Some s"
    and "unescape env s = Inr t"
  shows "update_item env h (PDict d) = Inr (with_section_text (PDict d) (take 3000 t), h)"
  using update_item_obj_section [of h "PDict d" d s env t] assms by simp

lemma update_item_ok:
  "block_ok env item \<Longrightarrow> update_item env h item = Inr (edited env item, h)"
proof (cases item)
  case (PDict d)
  assume ok: "block_ok env item"
  show ?thesis
  proof (cases "is_text_section item")
    case False
    then show ?thesis using PDict update_item_other by (simp add: edited_def)
  next
    case True
    then obtain s t where "section_text item = Some s" "unescape env s = Inr t"
      using ok PDict by (auto simp: block_ok_def split: option.splits sum.splits)
    then show ?thesis using True PDict update_item_section by (simp add: edited_def)
  qed
qed (simp_all add: block_ok_def)

lemma update_item_ref_ok:
  assumes "block_ok env (h a)"
  shows "update_item env h (PRef a) = Inr (PRef a, h(a := edited env (h a)))"
proof -
  obtain d where d: "h a = PDict d"
    using assms by (cases "h a") (simp_all add: block_ok_def)
  show ?thesis
  proof (cases "is_text_section (h a)")
    case False
    then have "update_item env h (PRef a) = Inr (PRef a, h)"
      using d update_item_obj_other [of h "PRef a" d env] by simp
    moreover have "h(a := edited env (h a)) = h"
      using False by (simp add: edited_def)
    ultimately show ?thesis by simp
  next
    case True
    then obtain s t where st: "section_text (h a) = Some s" "unescape env s = Inr t"
      using assms d by (auto simp: block_ok_def split: option.splits sum.splits)
    then show ?thesis
      using True d update_item_obj_section [of h "PRef a" d s env t]
      by (simp add: edited_def)
  qed
qed

lemma update_loop_ok:
  "list_all (block_ok env) items \<Longrightarrow>
     update_loop env h items = (Inr (map (edited env) items), map (edited env) items, h)"
  by (induction items) (simp_all add: update_item_ok)

lemma update_loop_refs:
  "distinct as \<Longrightarrow> list_all (\<lambda>a. block_ok env (h a)) as \<Longrightarrow>
     update_loop env h (map PRef as) =
       (Inr (map PRef as), map PRef as, (\<lambda>a. if a \<in> set as then edited env (h a) else h a))"
proof (induction as arbitrary: h)
  case Nil
  then show ?case by simp
next
  case (Cons a as)
  let ?h1 = "h(a := edited env (h a))"
  have head: "update_item env h (PRef a) = Inr (PRef a, ?h1)"
    using Cons.prems(2) by (simp add: update_item_ref_ok)
  have notin: "a \<notin> set as" and dist: "distinct as" using Cons.prems(1) by simp_all
  have ok: "list_all (\<lambda>b. block_ok env (?h1 b)) as"
    using Cons.prems(2) notin by (auto simp: list_all_iff)
  have tail: "update_loop env ?h1 (map PRef as) =
       (Inr (map PRef as), map PRef as,
        (\<lambda>b. if b \<in> set as then edited env (?h1 b) else ?h1 b))"
    using Cons.IH [OF dist ok] .
  have same: "(\<lambda>b. if b \<in> set as then edited env (?h1 b) else ?h1 b) =
       (\<lambda>b. if b \<in> set (a # as) then edited env (h b) else h b)"
    using notin by (auto simp: fun_eq_iff)
  show ?case using head tail same by simp
qed

lemma edited_other: "\<not> is_text_section item \<Longrightarrow> edited env item = item"
  by (simp add: edited_def)

lemma feedback_update_block_fallback:
  "block_body self = None \<or> block_body self = Some [] \<Longrightarrow>
     feedback_update_block env h self =
       ((case build_answer_blocks env self of
           Inl e \<Rightarrow> Inl e
         | Inr payload \<Rightarrow> py_subscript payload (str ''blocks'')), self, h)"
  by (auto simp: feedback_update_block_def)

lemma build_answer_blocks_wrapper:
  "build_answer_blocks env self = Inr p \<Longrightarrow> \<exists>bs. p = PDict [(str ''blocks'', PList bs)]"
  by (auto simp: build_answer_blocks_def Let_def split: if_splits sum.splits)

lemma edited_mk_section:
  "unescape env s = Inr t \<Longrightarrow> edited env (mk_section s) = mk_section (take 3000 t)"
  by (simp add: edited_def is_text_section_def section_text_def with_section_text_def
      mk_section_def str_def)

lemma block_ok_mk_section: "unescape env s = Inr t \<Longrightarrow> block_ok env (mk_section s)"
  by (simp add: block_ok_def is_text_section_def section_text_def mk_section_def str_def)

lemma divider_other: "\<not> is_text_section divider" "block_ok env divider"
  by (simp_all add: block_ok_def is_text_section_def divider_def str_def)

lemma unescape_twice_example:
  "unescape env_default (str ''&amp;lt;'') = Inr (str ''&lt;'')"
  "unescape env_default (str ''&lt;'') = Inr (str ''<'')"
  by (simp_all add: unescape_def str_def charref_match_def alt_dec_def alt_hex_def alt_name_def
      name_char_def Let_def replace_charref_def env_default_def html5_excerpt_def)

subsection \<open>What a returning call says of the payload\<close>

lemma update_item_head:
  assumes "update_item env h item = Inr r" and "is_text_section (resolve h item)"
  shows "text_is_mapping h item"
proof -
  obtain d where d: "resolve h item = PDict d"
    using assms(2) by (cases "resolve h item") (simp_all add: is_text_section_def)
  from assms(2) d obtain t where t: "map_of d (str ''text'') = Some t"
    and ty: "map_of d (str ''type'') = Some (PStr (str ''section''))"
    by (auto simp: is_text_section_def)
  have "\<exists>old. py_subscript (resolve h t) (str ''text'') = Inr old"
    using assms(1) d t ty by (auto simp: update_item_def split: sum.splits)
  then obtain inner where "resolve h t = PDict inner" by (cases "resolve h t") auto
  then show ?thesis using d t by (auto simp: text_is_mapping_def)
qed

lemma py_slice_3000_no_mapping:
  "py_unescape env v = Inr u \<Longrightarrow> py_slice_3000 u = Inr new \<Longrightarrow>
     (\<forall>i. v \<noteq> PDict i) \<and> (\<forall>i. resolve h new \<noteq> PDict i)"
  by (cases v; cases u) (auto split: if_splits sum.splits)

lemma put_text_step:
  assumes obj: "resolve h item = PDict d" and t: "map_of d (str ''text'') = Some t"
    and inner: "resolve h t = PDict inner" and old: "map_of inner (str ''text'') = Some old"
    and oldk: "\<forall>i. resolve h old \<noteq> PDict i" and newk: "\<forall>i. resolve h new \<noteq> PDict i"
    and put: "put_text h item t (PDict (AList.update (str ''text'') new inner)) = Inr (item', h')"
  shows "edit_step h h'"
proof (cases t)
  case (PRef b)
  then have "h b = PDict inner" using inner by simp
  moreover have "h' = h(b := PDict (AList.update (str ''text'') new inner))"
    using put PRef by (simp add: put_text_def)
  ultimately show ?thesis
    unfolding edit_step_def using old oldk newk by blast
next
  case (PDict x)
  then have x: "t = PDict inner" using inner by simp
  show ?thesis
  proof (cases item)
    case (PRef a)
    then have "h a = PDict d" using obj by simp
    moreover have "h' = h(a := PDict (AList.update (str ''text'')
        (PDict (AList.update (str ''text'') new inner)) d))"
      using put PRef x obj by (simp add: put_text_def)
    moreover have "(\<exists>i. resolve h (PDict (AList.update (str ''text'') new inner)) = PDict i)
        \<longleftrightarrow> (\<exists>i. resolve h t = PDict i)"
      using x by simp
    ultimately show ?thesis
      unfolding edit_step_def using t by blast
  qed (use put x obj in \<open>auto simp: put_text_def edit_step_def\<close>)
qed (use inner in auto)

lemma update_item_step:
  assumes "update_item env h item = Inr (item', h')"
  shows "edit_step h h'"
proof (cases "h' = h")
  case True
  then show ?thesis by (simp add: edit_step_def)
next
  case False
  from assms False obtain ty where ty: "py_get (resolve h item) (str ''type'') = Inr ty"
    and sec: "ty = PStr (str ''section'') \<and> py_has_key (resolve h item) (str ''text'')"
    by (auto simp: update_item_def split: sum.splits if_splits)
  then obtain d where d: "resolve h item = PDict d"
    by (cases "resolve h item") auto
  from assms ty sec obtain t old u new inner' where
    t: "py_subscript (resolve h item) (str ''text'') = Inr t"
    and o: "py_subscript (resolve h t) (str ''text'') = Inr old"
    and u: "py_unescape env (resolve h old) = Inr u"
    and n: "py_slice_3000 u = Inr new"
    and s: "py_setitem (resolve h t) (str ''text'') new = Inr inner'"
    and p: "put_text h item t inner' = Inr (item', h')"
    by (auto simp: update_item_def split: sum.splits)
  obtain inner where inner: "resolve h t = PDict inner"
    using o by (cases "resolve h t") auto
  have t': "map_of d (str ''text'') = Some t"
    using t d by (auto split: option.splits)
  have old: "map_of inner (str ''text'') = Some old"
    using o inner by (auto split: option.splits)
  have inner': "inner' = PDict (AList.update (str ''text'') new inner)"
    using s inner by simp
  have k: "(\<forall>i. resolve h old \<noteq> PDict i) \<and> (\<forall>i. resolve h new \<noteq> PDict i)"
    using py_slice_3000_no_mapping [OF u n] .
  show ?thesis
    using put_text_step [OF d t' inner old _ _ p [unfolded inner']] k by blast
qed

lemma edit_step_cases:
  assumes "edit_step h h'"
  obtains (same) "h' = h"
  | (cell) c d w w0 where "h c = PDict d" "map_of d (str ''text'') = Some w0"
      "h' = h(c := PDict (AList.update (str ''text'') w d))"
      "(\<exists>i. resolve h w = PDict i) \<longleftrightarrow> (\<exists>i. resolve h w0 = PDict i)"
  using assms unfolding edit_step_def by blast

lemma resolve_step:
  assumes "edit_step h h'"
  shows "(\<exists>i. resolve h' v = PDict i) \<longleftrightarrow> (\<exists>i. resolve h v = PDict i)"
  using assms
proof (cases rule: edit_step_cases)
  case same
  then show ?thesis by simp
next
  case (cell c d w w0)
  show ?thesis
  proof (cases "v = PRef c")
    case True
    then show ?thesis using cell(1,3) by simp
  next
    case False
    then have "resolve h' v = resolve h v" using cell(3) by (cases v) auto
    then show ?thesis by simp
  qed
qed

lemma section_step:
  assumes "edit_step h h'"
  shows "is_text_section (resolve h' x) \<longleftrightarrow> is_text_section (resolve h x)"
  using assms
proof (cases rule: edit_step_cases)
  case same
  then show ?thesis by simp
next
  case (cell c d w w0)
  have neq: "str ''type'' \<noteq> str ''text''" by (simp add: str_def)
  show ?thesis
  proof (cases "x = PRef c")
    case True
    then show ?thesis
      using cell(1-3) neq by (simp add: is_text_section_def update_conv')
  next
    case False
    then have "resolve h' x = resolve h x" using cell(3) by (cases x) auto
    then show ?thesis by simp
  qed
qed

lemma mapping_step:
  assumes "edit_step h h'"
  shows "text_is_mapping h' x \<longleftrightarrow> text_is_mapping h x"
proof -
  note r = resolve_step [OF assms]
  from assms show ?thesis
  proof (cases rule: edit_step_cases)
    case same
    then show ?thesis by simp
  next
    case (cell c d w w0)
    show ?thesis
    proof (cases "x = PRef c")
      case True
      have "text_is_mapping h' x \<longleftrightarrow> (\<exists>i. resolve h' w = PDict i)"
        using True cell(3) by (simp add: text_is_mapping_def update_conv')
      also have "\<dots> \<longleftrightarrow> (\<exists>i. resolve h w0 = PDict i)" using r [of w] cell(4) by simp
      also have "\<dots> \<longleftrightarrow> text_is_mapping h x"
        using True cell(1,2) by (simp add: text_is_mapping_def)
      finally show ?thesis .
    next
      case False
      then have "resolve h' x = resolve h x" using cell(3) by (cases x) auto
      then show ?thesis using r by (simp add: text_is_mapping_def)
    qed
  qed
qed

lemma update_loop_mapping:
  "update_loop env h items = (Inr updated, body, h') \<Longrightarrow> x \<in> set items \<Longrightarrow>
     is_text_section (resolve h x) \<Longrightarrow> text_is_mapping h x"
proof (induction items arbitrary: h updated body h')
  case Nil
  then show ?case by simp
next
  case (Cons a items)
  from Cons.prems(1) obtain a' h1 where a: "update_item env h a = Inr (a', h1)"
    by (cases "update_item env h a") auto
  obtain r b h2 where l: "update_loop env h1 items = (r, b, h2)"
    by (cases "update_loop env h1 items")
  then obtain u where u: "r = Inr u" using Cons.prems(1) a by (cases r) auto
  note step = update_item_step [OF a]
  show ?case
  proof (cases "x = a")
    case True
    then show ?thesis using update_item_head [OF a] Cons.prems(3) by simp
  next
    case False
    then have "x \<in> set items" using Cons.prems(2) by simp
    moreover have "is_text_section (resolve h1 x)"
      using section_step [OF step] Cons.prems(3) by simp
    ultimately have "text_is_mapping h1 x"
      using Cons.IH [of h1 u b h2] l u by simp
    then show ?thesis using mapping_step [OF step] by simp
  qed
qed

text \<open>
  C6, as amended. Take a non-empty \<open>block_body\<close> of distinct blocks, each held in
  \<open>block_body\<close> only, whose blocks are mappings and whose section blocks carrying a
  text sub-field hold a mapping of their own with a string text on which
  \<open>html.unescape\<close> returns. \<open>feedback_update_block\<close> unescapes and cuts to 3000
  characters the text of every such section, leaves every other block as it is, returns
  the sequence, and leaves it in \<open>block_body\<close>. This holds for blocks written out in
  the list, where the store is left as it was, and for blocks that are objects of the
  store at distinct addresses, where the store is edited at these addresses and nowhere
  else. When \<open>block_body\<close> is absent or empty, the method returns the block sequence of
  \<open>build_answer_blocks\<close>. \<open>feedback_update_block_session\<close> does the same.
\<close>

theorem feedback_update_block_edit:
  "(block_body self = Some items \<and> items \<noteq> [] \<and> list_all (block_ok env) items \<longrightarrow>
      feedback_update_block env h self =
        (Inr (PList (map (edited env) items)),
         self\<lparr>block_body := Some (map (edited env) items)\<rparr>, h)
      \<and> (\<forall>i < length items. \<not> is_text_section (items ! i) \<longrightarrow>
            map (edited env) items ! i = items ! i)
      \<and> (\<forall>i < length items. is_text_section (items ! i) \<longrightarrow>
            (\<exists>s t. section_text (items ! i) = Some s \<and> unescape env s = Inr t
               \<and> map (edited env) items ! i = with_section_text (items ! i) (take 3000 t))))
   \<and> (block_body self = Some (map PRef as) \<and> as \<noteq> [] \<and> distinct as
        \<and> list_all (\<lambda>a. block_ok env (h a)) as \<longrightarrow>
      feedback_update_block env h self =
        (Inr (PList (map PRef as)), self\<lparr>block_body := Some (map PRef as)\<rparr>,
         (\<lambda>a. if a \<in> set as then edited env (h a) else h a)))
   \<and> (block_body self = None \<or> block_body self = Some [] \<longrightarrow>
        (\<forall>bs. build_answer_blocks env self = Inr (PDict [(str ''blocks'', PList bs)]) \<longrightarrow>
           feedback_update_block env h self = (Inr (PList bs), self, h))
        \<and> (\<forall>e. build_answer_blocks env self = Inl e \<longrightarrow>
           feedback_update_block env h self = (Inl e, self, h)))
   \<and> feedback_update_block_session env h self = feedback_update_block env h self"
proof -
  have c_inline: "block_body self = Some items \<and> items \<noteq> [] \<and> list_all (block_ok env) items \<longrightarrow>
      feedback_update_block env h self =
        (Inr (PList (map (edited env) items)),
         self\<lparr>block_body := Some (map (edited env) items)\<rparr>, h)
      \<and> (\<forall>i < length items. \<not> is_text_section (items ! i) \<longrightarrow>
            map (edited env) items ! i = items ! i)
      \<and> (\<forall>i < length items. is_text_section (items ! i) \<longrightarrow>
            (\<exists>s t. section_text (items ! i) = Some s \<and> unescape env s = Inr t
               \<and> map (edited env) items ! i = with_section_text (items ! i) (take 3000 t)))"
  proof (intro impI conjI allI)
    assume a: "block_body self = Some items \<and> items \<noteq> [] \<and> list_all (block_ok env) items"
    then show "feedback_update_block env h self =
        (Inr (PList (map (edited env) items)),
         self\<lparr>block_body := Some (map (edited env) items)\<rparr>, h)"
      using update_loop_ok [of env items h] by (simp add: feedback_update_block_def)
  next
    fix i
    assume "i < length items" and "\<not> is_text_section (items ! i)"
    then show "map (edited env) items ! i = items ! i" by (simp add: edited_other)
  next
    fix i
    assume a: "block_body self = Some items \<and> items \<noteq> [] \<and> list_all (block_ok env) items"
      and i: "i < length items" and sec: "is_text_section (items ! i)"
    have ok: "block_ok env (items ! i)" using a i by (simp add: list_all_length)
    obtain d where d: "items ! i = PDict d"
      using sec by (cases "items ! i") (simp_all add: is_text_section_def)
    obtain s t where st: "section_text (items ! i) = Some s" "unescape env s = Inr t"
      using ok sec d by (auto simp: block_ok_def split: option.splits sum.splits)
    then have "edited env (items ! i) = with_section_text (items ! i) (take 3000 t)"
      using sec by (simp add: edited_def)
    then show "\<exists>s t. section_text (items ! i) = Some s \<and> unescape env s = Inr t
               \<and> map (edited env) items ! i = with_section_text (items ! i) (take 3000 t)"
      using st i by auto
  qed
  have c_refs: "block_body self = Some (map PRef as) \<and> as \<noteq> [] \<and> distinct as
        \<and> list_all (\<lambda>a. block_ok env (h a)) as \<longrightarrow>
      feedback_update_block env h self =
        (Inr (PList (map PRef as)), self\<lparr>block_body := Some (map PRef as)\<rparr>,
         (\<lambda>a. if a \<in> set as then edited env (h a) else h a))"
    using update_loop_refs [of as env h] by (simp add: feedback_update_block_def)
  have c_fallback: "block_body self = None \<or> block_body self = Some [] \<longrightarrow>
        (\<forall>bs. build_answer_blocks env self = Inr (PDict [(str ''blocks'', PList bs)]) \<longrightarrow>
           feedback_update_block env h self = (Inr (PList bs), self, h))
        \<and> (\<forall>e. build_answer_blocks env self = Inl e \<longrightarrow>
           feedback_update_block env h self = (Inl e, self, h))"
    by (simp add: feedback_update_block_fallback)
  have c_alias: "feedback_update_block_session env h self = feedback_update_block env h self"
    by (simp add: feedback_update_block_session_def)
  show ?thesis
    by (rule conjI c_inline c_refs c_fallback c_alias)+
qed

text \<open>
  The theorem at a payload of one section and a divider, written out in the list and as
  two objects of the store, and at a builder without a payload.
\<close>

theorem feedback_update_block_edit_witness:
  "feedback_update_block env_default store_init
      (blockkit_init\<lparr>block_body := Some [mk_section (str ''A &amp; B''), divider]\<rparr>) =
     (Inr (PList [mk_section (str ''A & B''), divider]),
      blockkit_init\<lparr>block_body := Some [mk_section (str ''A & B''), divider]\<rparr>, store_init)
   \<and> fst (feedback_update_block env_default
           (store_init(1 := mk_section (str ''A &amp; B''), 2 := divider))
           (blockkit_init\<lparr>block_body := Some [PRef 1, PRef 2]\<rparr>)) =
     Inr (PList [PRef 1, PRef 2])
   \<and> snd (snd (feedback_update_block env_default
           (store_init(1 := mk_section (str ''A &amp; B''), 2 := divider))
           (blockkit_init\<lparr>block_body := Some [PRef 1, PRef 2]\<rparr>))) 1 =
     mk_section (str ''A & B'')
   \<and> snd (snd (feedback_update_block env_default
           (store_init(1 := mk_section (str ''A &amp; B''), 2 := divider))
           (blockkit_init\<lparr>block_body := Some [PRef 1, PRef 2]\<rparr>))) 2 = divider
   \<and> feedback_update_block env_default store_init blockkit_init =
     (Inr (PList [mk_section (no_suggestion None)]), blockkit_init, store_init)"
proof -
  let ?items = "[mk_section (str ''A &amp; B''), divider]"
  let ?k = "blockkit_init\<lparr>block_body := Some ?items\<rparr>"
  let ?h = "store_init(1 := mk_section (str ''A &amp; B''), 2 := divider)"
  let ?r = "blockkit_init\<lparr>block_body := Some (map PRef [1, 2])\<rparr>"
  have short: "take 3000 (str ''A & B'') = str ''A & B''" by (simp add: str_def)
  have pre: "block_body ?k = Some ?items \<and> ?items \<noteq> [] \<and> list_all (block_ok env_default) ?items"
    using block_ok_mk_section [OF unescape_example] divider_other(2) by simp
  have ed: "map (edited env_default) ?items = [mk_section (str ''A & B''), divider]"
    using edited_mk_section [OF unescape_example] divider_other(1) short by (simp add: edited_other)
  have pre_refs: "block_body ?r = Some (map PRef [1, 2]) \<and> [1, 2] \<noteq> ([] :: nat list)
      \<and> distinct [1, 2 :: nat] \<and> list_all (\<lambda>a. block_ok env_default (?h a)) [1, 2]"
    using block_ok_mk_section [OF unescape_example] divider_other(2) by simp
  have ed_refs: "edited env_default (?h 1) = mk_section (str ''A & B'')"
      "edited env_default (?h 2) = divider"
    using edited_mk_section [OF unescape_example] divider_other(1) short
    by (simp_all add: edited_other)
  have none: "block_body blockkit_init = None \<or> block_body blockkit_init = Some []"
    by (simp add: blockkit_init_def)
  have build: "build_answer_blocks env_default blockkit_init =
      Inr (PDict [(str ''blocks'', PList [mk_section (no_suggestion None)])])"
    by (simp add: build_answer_blocks_def blockkit_init_def)
  show ?thesis
    using feedback_update_block_edit
        [where self = ?k and items = ?items and env = env_default and h = store_init]
      feedback_update_block_edit
        [where self = ?r and as = "[1, 2]" and env = env_default and h = ?h]
      feedback_update_block_edit
        [where self = blockkit_init and items = "[]" and env = env_default and h = store_init]
      pre ed pre_refs ed_refs none build
    by simp
qed

text \<open>
  The claim as the specification words it fails for three supplied sequences: for the
  empty sequence the method returns the one block of \<open>build_answer_blocks\<close> and not
  the sequence; for a section whose text is a plain string it raises; and a section
  with the text \<open>&amp;lt;\<close> that is held twice in the sequence is unescaped twice
  and ends with the text \<open><\<close>, where one unescaping gives \<open>&lt;\<close>.
\<close>

theorem feedback_update_block_edit_counterexample:
  "fst (feedback_update_block env_default store_init (blockkit_init\<lparr>block_body := Some []\<rparr>))
     = Inr (PList [mk_section (no_suggestion None)])
   \<and> fst (feedback_update_block env_default store_init (blockkit_init\<lparr>block_body := Some []\<rparr>))
     \<noteq> Inr (PList [])
   \<and> fst (feedback_update_block env_default store_init
        (blockkit_init\<lparr>block_body :=
           Some [PDict [(str ''type'', PStr (str ''section'')), (str ''text'', PStr (str ''hello''))],
                 divider]\<rparr>))
     = Inl TypeError
   \<and> snd (snd (feedback_update_block env_default
        (store_init(1 := mk_section (str ''&amp;lt;'')))
        (blockkit_init\<lparr>block_body := Some [PRef 1, PRef 1]\<rparr>))) 1
     = mk_section (str ''<'')
   \<and> edited env_default (mk_section (str ''&amp;lt;'')) = mk_section (str ''&lt;'')"
proof -
  let ?h = "store_init(1 := mk_section (str ''&amp;lt;''))"
  have t1: "take 3000 (str ''&lt;'') = str ''&lt;''" and t2: "take 3000 (str ''<'') = str ''<''"
    by (simp_all add: str_def)
  have first: "update_item env_default ?h (PRef 1) = Inr (PRef 1, ?h(1 := mk_section (str ''&lt;'')))"
    using update_item_ref_ok [of env_default ?h 1]
      block_ok_mk_section [OF unescape_twice_example(1)]
      edited_mk_section [OF unescape_twice_example(1)] t1 by simp
  have second: "update_item env_default (?h(1 := mk_section (str ''&lt;''))) (PRef 1) =
      Inr (PRef 1, ?h(1 := mk_section (str ''<'')))"
    using update_item_ref_ok [of env_default "?h(1 := mk_section (str ''&lt;''))" 1]
      block_ok_mk_section [OF unescape_twice_example(2)]
      edited_mk_section [OF unescape_twice_example(2)] t2 by simp
  have twice: "snd (snd (feedback_update_block env_default ?h
        (blockkit_init\<lparr>block_body := Some [PRef 1, PRef 1]\<rparr>))) 1 = mk_section (str ''<'')"
    using first second by (simp add: feedback_update_block_def)
  have once: "edited env_default (mk_section (str ''&amp;lt;'')) = mk_section (str ''&lt;'')"
    using edited_mk_section [OF unescape_twice_example(1)] t1 by simp
  have rest: "fst (feedback_update_block env_default store_init (blockkit_init\<lparr>block_body := Some []\<rparr>))
       = Inr (PList [mk_section (no_suggestion None)])
     \<and> fst (feedback_update_block env_default store_init
        (blockkit_init\<lparr>block_body :=
           Some [PDict [(str ''type'', PStr (str ''section'')), (str ''text'', PStr (str ''hello''))],
                 divider]\<rparr>))
       = Inl TypeError"
    by (simp add: feedback_update_block_def build_answer_blocks_def blockkit_init_def
        update_item_def str_def)
  show ?thesis using rest twice once by simp
qed

text \<open>
  C10. A section block whose text field is a plain string makes
  \<open>feedback_update_block\<close> raise \<open>TypeError\<close>: a string has no item \<open>text\<close>. And
  whenever the method returns on a non-empty \<open>block_body\<close>, every section block
  carrying a text sub-field has a mapping under \<open>text\<close>, whether or not blocks and
  mappings are held in several places.
\<close>

theorem feedback_update_block_partial:
  "fst (feedback_update_block env h
          (self\<lparr>block_body :=
             Some [PDict [(str ''type'', PStr (str ''section'')), (str ''text'', PStr s)]]\<rparr>))
     = Inl TypeError
   \<and> (block_body self = Some items \<and> items \<noteq> []
        \<and> fst (feedback_update_block env h self) = Inr r \<longrightarrow>
        (\<forall>item \<in> set items. is_text_section (resolve h item) \<longrightarrow>
           (\<exists>t inner. py_subscript (resolve h item) (str ''text'') = Inr t
              \<and> resolve h t = PDict inner)))"
proof (intro conjI impI ballI)
  show "fst (feedback_update_block env h
          (self\<lparr>block_body :=
             Some [PDict [(str ''type'', PStr (str ''section'')), (str ''text'', PStr s)]]\<rparr>))
     = Inl TypeError"
    by (simp add: feedback_update_block_def update_item_def str_def)
next
  fix item
  assume a: "block_body self = Some items \<and> items \<noteq> []
        \<and> fst (feedback_update_block env h self) = Inr r"
    and i: "item \<in> set items" and sec: "is_text_section (resolve h item)"
  obtain res body h' where l: "update_loop env h items = (res, body, h')"
    by (cases "update_loop env h items")
  then obtain updated where "res = Inr updated"
    using a by (cases res) (auto simp: feedback_update_block_def)
  then have "text_is_mapping h item"
    using update_loop_mapping l i sec by blast
  then show "\<exists>t inner. py_subscript (resolve h item) (str ''text'') = Inr t
              \<and> resolve h t = PDict inner"
    by (simp add: text_is_mapping_def)
qed

text \<open>
  The theorem at a payload of one well-formed section, and at a section with the plain
  text \<open>hello\<close>.
\<close>

theorem feedback_update_block_partial_witness:
  "fst (feedback_update_block env_default store_init
          (blockkit_init\<lparr>block_body := Some [mk_section (str ''A &amp; B'')]\<rparr>))
     = Inr (PList [mk_section (str ''A & B'')])
   \<and> (\<exists>t inner. py_subscript (resolve store_init (mk_section (str ''A &amp; B''))) (str ''text'')
          = Inr t \<and> resolve store_init t = PDict inner)
   \<and> fst (feedback_update_block env_default store_init
          (blockkit_init\<lparr>block_body :=
             Some [PDict [(str ''type'', PStr (str ''section'')), (str ''text'', PStr (str ''hello''))]]\<rparr>))
     = Inl TypeError"
proof -
  let ?items = "[mk_section (str ''A &amp; B'')]"
  let ?k = "blockkit_init\<lparr>block_body := Some ?items\<rparr>"
  have short: "take 3000 (str ''A & B'') = str ''A & B''" by (simp add: str_def)
  have res: "fst (feedback_update_block env_default store_init ?k)
      = Inr (PList [mk_section (str ''A & B'')])"
    using update_item_mk_section [OF unescape_example] short
    by (simp add: feedback_update_block_def)
  have sec: "is_text_section (resolve store_init (mk_section (str ''A &amp; B'')))"
    by (simp add: is_text_section_def mk_section_def str_def)
  have pre: "block_body ?k = Some ?items \<and> ?items \<noteq> []
      \<and> fst (feedback_update_block env_default store_init ?k)
          = Inr (PList [mk_section (str ''A & B'')])"
    using res by simp
  show ?thesis
    using feedback_update_block_partial
        [where env = env_default and h = store_init and self = ?k and s = "str ''hello''"
           and items = ?items and r = "PList [mk_section (str ''A & B'')]"]
      feedback_update_block_partial
        [where env = env_default and h = store_init and self = blockkit_init
           and s = "str ''hello''"]
      pre sec res
    by simp
qed

section \<open>What the formatting methods raise\<close>

lemma build_answer_blocks_error:
  assumes "build_answer_blocks env self = Inl e"
  shows "e = ValueError \<and> 0 < int_max_str_digits env
         \<and> (\<exists>s. llm_answer self = Some s \<and> int_max_str_digits env < length s)"
proof -
  from assms obtain s where s: "llm_answer self = Some s" and u: "unescape env s = Inl e"
    by (cases "llm_answer self")
       (auto simp: build_answer_blocks_def Let_def split: if_splits sum.splits)
  then show ?thesis using unescape_error [OF u] by simp
qed

lemma thread_block_kit_error:
  assumes "thread_block_kit env self = Inl e"
  shows "e = ValueError \<and> 0 < int_max_str_digits env
         \<and> (\<exists>s. llm_answer self = Some s \<and> int_max_str_digits env < length s)"
proof -
  from assms obtain s where s: "llm_answer self = Some s" and u: "unescape env s = Inl e"
    by (cases "llm_answer self")
       (auto simp: thread_block_kit_def Let_def split: if_splits sum.splits)
  then show ?thesis using unescape_error [OF u] by simp
qed

lemma unescape_digits:
  assumes "0 < int_max_str_digits env" and "int_max_str_digits env < n"
  shows "unescape env (str ''&#'' @ replicate n 0x31) = Inl ValueError"
proof -
  let ?ds = "replicate n (0x31 :: nat)"
  obtain k where n: "n = Suc k" using assms(2) by (cases n) auto
  have dec: "is_dec 0x31" by (simp add: is_dec_def)
  have m: "charref_match (0x26 # 0x23 # ?ds) = Some (0x23 # ?ds, [])"
    using dec n by (simp add: charref_match_def alt_dec_def takeWhile_replicate dropWhile_replicate)
  have strip: "rstrip_semi (?ds @ []) = ?ds"
    by (rule rstrip_semi_digits) (use n in auto)
  have "int_dec env ?ds = Inl ValueError"
    using assms dec by (simp add: int_dec_def list_all_iff)
  then have r: "replace_charref env (0x23 # ?ds) = Inl ValueError"
    using strip n by (simp add: replace_charref_def)
  have "charref_sub env (0x26 # 0x23 # ?ds) = Inl ValueError"
    using m r by simp
  then show ?thesis by (simp add: unescape_def str_def)
qed

text \<open>
  C9, as amended. Whatever optional fields are present or absent:
  \<open>build_answer_blocks\<close> and \<open>thread_block_kit\<close> raise nothing but \<open>ValueError\<close>,
  and that only under a positive digit limit of the interpreter that is smaller than the
  length of the answer (a decimal character reference with more digits than the limit);
  otherwise \<open>build_answer_blocks\<close> returns a wrapper with the key \<open>blocks\<close>.
  \<open>feedback_update_block\<close> raises only what \<open>build_answer_blocks\<close> raises when
  \<open>block_body\<close> is absent or empty, and returns when \<open>block_body\<close> is a non-empty
  sequence of mappings, each held there only, whose sections carry a mapping of their
  own with a string text on which \<open>html.unescape\<close> returns. An absent user or bot id
  is rendered as \<open><@None>\<close>.
\<close>

theorem formatting_methods_total:
  "(\<forall>e. build_answer_blocks env self = Inl e \<or> thread_block_kit env self = Inl e \<longrightarrow>
       e = ValueError \<and> 0 < int_max_str_digits env
       \<and> (\<exists>s. llm_answer self = Some s \<and> int_max_str_digits env < length s))
   \<and> (\<forall>p. build_answer_blocks env self = Inr p \<longrightarrow> (\<exists>bs. p = PDict [(str ''blocks'', PList bs)]))
   \<and> (block_body self = None \<or> block_body self = Some [] \<longrightarrow>
        (\<forall>e. fst (feedback_update_block env h self) = Inl e \<longrightarrow>
           build_answer_blocks env self = Inl e))
   \<and> (block_body self = Some items \<and> items \<noteq> [] \<and> list_all (block_ok env) items \<longrightarrow>
        (\<exists>r. fst (feedback_update_block env h self) = Inr r))
   \<and> (\<not> truthy (llm_answer self) \<and> user_id self = None \<longrightarrow>
        build_answer_blocks env self =
          Inr (PDict [(str ''blocks'', PList
            [mk_section (str ''Sorry, <@None> '' @ [0x2014]
                         @ str '' no suggestions have been found.'')])])
        \<and> thread_block_kit env self =
          Inr (PList
            [mk_section (str ''Sorry, <@None> '' @ [0x2014]
                         @ str '' no suggestions have been found.'')]))
   \<and> (bot_id self = None \<longrightarrow>
        followup_block_kit self =
          [mk_section (str ''Not clear yet? I can guide you one step at a time '' @ [0x2014]
             @ str '' just @mention <@None> with your follow-up questions.'')]
        \<and> followup_delay_message self =
          [mk_section (str ''Did you find the suggestion satisfactory? If not, you can ask me more ''
             @ str ''questions by sending me an @mention <@None>.'')])
   \<and> (hc_user_id t = None \<longrightarrow>
        clicked_ticket_button t =
          PDict [(str ''blocks'', PList
            [mk_section (str ''<@None> clicked on *Open Support Request*'')])])"
proof -
  have c1: "\<forall>e. build_answer_blocks env self = Inl e \<or> thread_block_kit env self = Inl e \<longrightarrow>
       e = ValueError \<and> 0 < int_max_str_digits env
       \<and> (\<exists>s. llm_answer self = Some s \<and> int_max_str_digits env < length s)"
    using build_answer_blocks_error thread_block_kit_error by blast
  have c2: "\<forall>p. build_answer_blocks env self = Inr p \<longrightarrow> (\<exists>bs. p = PDict [(str ''blocks'', PList bs)])"
    using build_answer_blocks_wrapper by blast
  have c3: "block_body self = None \<or> block_body self = Some [] \<longrightarrow>
        (\<forall>e. fst (feedback_update_block env h self) = Inl e \<longrightarrow>
           build_answer_blocks env self = Inl e)"
  proof (intro impI allI)
    fix e
    assume a: "block_body self = None \<or> block_body self = Some []"
      and e: "fst (feedback_update_block env h self) = Inl e"
    show "build_answer_blocks env self = Inl e"
    proof (cases "build_answer_blocks env self")
      case (Inl e')
      then show ?thesis using a e by (simp add: feedback_update_block_fallback)
    next
      case (Inr p)
      then obtain bs where "p = PDict [(str ''blocks'', PList bs)]"
        using build_answer_blocks_wrapper by blast
      then show ?thesis using a e Inr by (simp add: feedback_update_block_fallback)
    qed
  qed
  have c4: "block_body self = Some items \<and> items \<noteq> [] \<and> list_all (block_ok env) items \<longrightarrow>
        (\<exists>r. fst (feedback_update_block env h self) = Inr r)"
    using update_loop_ok [of env items h] by (simp add: feedback_update_block_def)
  have c5: "\<not> truthy (llm_answer self) \<and> user_id self = None \<longrightarrow>
        build_answer_blocks env self =
          Inr (PDict [(str ''blocks'', PList
            [mk_section (str ''Sorry, <@None> '' @ [0x2014]
                         @ str '' no suggestions have been found.'')])])
        \<and> thread_block_kit env self =
          Inr (PList
            [mk_section (str ''Sorry, <@None> '' @ [0x2014]
                         @ str '' no suggestions have been found.'')])"
    by (simp add: build_answer_blocks_def thread_block_kit_def no_suggestion_def str_def)
  have c6: "bot_id self = None \<longrightarrow>
        followup_block_kit self =
          [mk_section (str ''Not clear yet? I can guide you one step at a time '' @ [0x2014]
             @ str '' just @mention <@None> with your follow-up questions.'')]
        \<and> followup_delay_message self =
          [mk_section (str ''Did you find the suggestion satisfactory? If not, you can ask me more ''
             @ str ''questions by sending me an @mention <@None>.'')]"
    by (simp add: followup_block_kit_def followup_delay_message_def str_def)
  have c7: "hc_user_id t = None \<longrightarrow>
        clicked_ticket_button t =
          PDict [(str ''blocks'', PList
            [mk_section (str ''<@None> clicked on *Open Support Request*'')])]"
    by (simp add: clicked_ticket_button_def str_def)
  show ?thesis
    by (rule conjI c1 c2 c3 c4 c5 c6 c7)+
qed

text \<open>
  The theorem at the builder and the ticket without any field, and at a payload of one
  divider.
\<close>

theorem formatting_methods_total_witness:
  "build_answer_blocks env_default blockkit_init =
          Inr (PDict [(str ''blocks'', PList
            [mk_section (str ''Sorry, <@None> '' @ [0x2014]
                         @ str '' no suggestions have been found.'')])])
   \<and> followup_delay_message blockkit_init =
          [mk_section (str ''Did you find the suggestion satisfactory? If not, you can ask me more ''
             @ str ''questions by sending me an @mention <@None>.'')]
   \<and> clicked_ticket_button helpcentral_init =
          PDict [(str ''blocks'', PList
            [mk_section (str ''<@None> clicked on *Open Support Request*'')])]
   \<and> (\<exists>r. fst (feedback_update_block env_default store_init
               (blockkit_init\<lparr>block_body := Some [divider]\<rparr>)) = Inr r)"
proof -
  let ?k = "blockkit_init\<lparr>block_body := Some [divider]\<rparr>"
  have a: "\<not> truthy (llm_answer blockkit_init) \<and> user_id blockkit_init = None"
    by (simp add: blockkit_init_def)
  have b: "bot_id blockkit_init = None" by (simp add: blockkit_init_def)
  have c: "hc_user_id helpcentral_init = None" by (simp add: helpcentral_init_def)
  have d: "block_body ?k = Some [divider] \<and> [divider] \<noteq> [] \<and> list_all (block_ok env_default) [divider]"
    using divider_other(2) by simp
  show ?thesis
    using formatting_methods_total
        [where env = env_default and self = blockkit_init and t = helpcentral_init
           and h = store_init]
      formatting_methods_total
        [where env = env_default and self = ?k and items = "[divider]" and h = store_init]
      a b c d
    by blast
qed

text \<open>
  The claim as the specification words it fails: with a \<open>block_body\<close> whose section
  has a text mapping without the key \<open>text\<close>, \<open>feedback_update_block\<close> raises
  \<open>KeyError\<close>; and with an answer that is a decimal character reference of 4301
  digits, \<open>build_answer_blocks\<close> raises \<open>ValueError\<close> under the default limit of 4300
  digits.
\<close>

theorem formatting_methods_raise_counterexample:
  "fst (feedback_update_block env_default store_init
        (blockkit_init\<lparr>block_body :=
           Some [PDict [(str ''type'', PStr (str ''section'')),
                        (str ''text'', PDict [(str ''type'', PStr (str ''mrkdwn''))])]]\<rparr>))
     = Inl KeyError
   \<and> build_answer_blocks env_default
        (blockkit_init\<lparr>llm_answer := Some (str ''&#'' @ replicate 4301 0x31)\<rparr>)
     = Inl ValueError"
proof -
  have "unescape env_default (str ''&#'' @ replicate 4301 0x31) = Inl ValueError"
    by (rule unescape_digits) (simp_all add: env_default_def)
  then have "build_answer_blocks env_default
        (blockkit_init\<lparr>llm_answer := Some (str ''&#'' @ replicate 4301 0x31)\<rparr>)
     = Inl ValueError"
    by (simp add: build_answer_blocks_def str_def)
  then show ?thesis
    by (simp add: feedback_update_block_def update_item_def str_def)
qed

end
